theory Spec2Isabelle
  imports Main "HOL-Library.Sublist"
begin

section \<open>Data model\<close>

text \<open>
  The repository is one Express server in three storage variants (flat JSON files,
  SQLite, in-memory arrays). A timestamp is the instant read by \<open>new Date()\<close>, as
  milliseconds; an identifier is the string \<open>uuidv4()\<close> returned. Both come from the
  environment and are parameters of the handlers.
\<close>

type_synonym timestamp = nat

text \<open>
  A stored conversation. \<open>conv_title\<close> is \<open>None\<close> where the object has no
  \<open>title\<close> property (the request body had none, or the variant never sets one).
\<close>

record conversation =
  conv_id :: string
  conv_title :: "string option"
  conv_created_at :: timestamp

text \<open>
  A stored message. The file variant names the reference \<open>conversation_id\<close>, the
  in-memory variant \<open>conversationId\<close>; \<open>msg_message_type\<close> is \<open>None\<close> where the
  object has no \<open>message_type\<close> property (the debug entries).
\<close>

record message =
  msg_id :: string
  msg_conversation_id :: string
  msg_role :: string
  msg_content :: string
  msg_created_at :: timestamp
  msg_message_type :: "string option"

section \<open>Model selection\<close>

text \<open>
  \<open>AVAILABLE_MODELS\<close> is a plain object literal, so the lookup
  \<open>AVAILABLE_MODELS[model]\<close> finds the object's own properties first and then the
  properties every plain object inherits from \<open>Object.prototype\<close>. The inherited
  members are functions (\<open>__proto__\<close> is the prototype object itself); a value of the
  variable \<open>currentModel\<close> is therefore a string or such a member.
\<close>

datatype model_ref = ModelName string | Inherited string

definition AVAILABLE_MODELS :: "(string \<times> string) list" where
  "AVAILABLE_MODELS =
     [(''o1'', ''o1''),
      (''gpt-4o-mini'', ''gpt-4o-mini''),
      (''o1-preview'', ''o1-preview''),
      (''gpt-4o'', ''gpt-4o'')]"

definition Object_prototype :: "string list" where
  "Object_prototype =
     [''constructor'', ''__defineGetter__'', ''__defineSetter__'', ''hasOwnProperty'',
      ''__lookupGetter__'', ''__lookupSetter__'', ''isPrototypeOf'',
      ''propertyIsEnumerable'', ''toString'', ''valueOf'', ''__proto__'',
      ''toLocaleString'']"

text \<open>\<open>AVAILABLE_MODELS[key]\<close>; \<open>None\<close> is \<open>undefined\<close>.\<close>

definition get_property :: "string \<Rightarrow> model_ref option" where
  "get_property key =
     (case map_of AVAILABLE_MODELS key of
        Some v \<Rightarrow> Some (ModelName v)
      | None \<Rightarrow> if key \<in> set Object_prototype then Some (Inherited key) else None)"

text \<open>Truthiness of a looked-up value: a string is truthy unless empty, a function or
  object always.\<close>

fun truthy :: "model_ref \<Rightarrow> bool" where
  "truthy (ModelName v) = (v \<noteq> [])"
| "truthy (Inherited _) = True"

text \<open>\<open>Object.keys(AVAILABLE_MODELS)\<close>: the own keys, in insertion order.\<close>

definition model_keys :: "string list" where
  "model_keys = map fst AVAILABLE_MODELS"

section \<open>Requests to the completion API\<close>

datatype content_part = TextPart string | ImageUrlPart string

datatype turn_content = Plain string | Parts "content_part list"

record chat_turn =
  turn_role :: string
  turn_content :: turn_content

record completion_request =
  req_model :: model_ref
  req_messages :: "chat_turn list"
  req_max_tokens :: nat

text \<open>One entry of the request body's \<open>files\<close> array.\<close>

record upload =
  upload_data :: string

text \<open>The body of \<open>POST /api/chat\<close>; \<open>body_files\<close> is \<open>None\<close> when the body has no
  \<open>files\<close>.\<close>

record chat_body =
  body_message :: string
  body_conversationId :: string
  body_files :: "upload list option"

fun join_lines :: "string list \<Rightarrow> string" where
  "join_lines [] = []"
| "join_lines [l] = l"
| "join_lines (l # ls) = l @ CHR 0x0A # join_lines ls"

definition system_instruction :: string where
  "system_instruction = join_lines
     [''You are an advanced AI assistant specialized in programming and mathematics. Your capabilities include:'',
      [],
      ''1. Programming:'',
      ''   - Code analysis and debugging'',
      ''   - Algorithm optimization'',
      ''   - Best practices and design patterns'',
      ''   - Multiple programming languages expertise'',
      ''   - Code review and suggestions'',
      [],
      ''2. Mathematics:'',
      ''   - Advanced mathematical problem-solving'',
      ''   - Step-by-step solution explanations'',
      ''   - Mathematical proofs'',
      ''   - Statistical analysis'',
      ''   - Numerical methods and computations'',
      [],
      ''3. Image Analysis:'',
      ''   - Code screenshot analysis'',
      ''   - Mathematical equation recognition'',
      ''   - Diagram and flowchart interpretation'',
      ''   - Whiteboard content analysis'',
      ''   - Mathematical graph interpretation'',
      [],
      ''Provide detailed, accurate solutions with explanations. When dealing with code, include comments and best practices. For mathematical problems, show step-by-step solutions with clear reasoning.'']"

definition default_prompt :: string where
  "default_prompt = ''What do you see in these images?''"

text \<open>The user turn: multi-part when \<open>files && files.length > 0\<close>, the plain text
  otherwise. \<open>message || default\<close> takes the default for the empty string.\<close>

definition user_turn :: "chat_body \<Rightarrow> chat_turn" where
  "user_turn b =
     (case body_files b of
        Some (f # fs) \<Rightarrow>
          \<lparr>turn_role = ''user'',
           turn_content = Parts
             (TextPart (if body_message b \<noteq> [] then body_message b else default_prompt)
              # map (\<lambda>file. ImageUrlPart (upload_data file)) (f # fs))\<rparr>
      | _ \<Rightarrow> \<lparr>turn_role = ''user'', turn_content = Plain (body_message b)\<rparr>)"

definition build_messages :: "chat_body \<Rightarrow> chat_turn list" where
  "build_messages b =
     [\<lparr>turn_role = ''system'', turn_content = Plain system_instruction\<rparr>] @ [user_turn b]"

section \<open>Responses\<close>

text \<open>
  The objects the handlers pass to \<open>res.json\<close>, as they are before
  serialisation. \<open>ErrorBody e code retryAfter\<close> is
  \<open>{error, code, retryAfter}\<close> with the absent properties \<open>None\<close>;
  \<open>WrappedMessages\<close> is \<open>{messages: [...]}\<close>; \<open>ModelSelected\<close> is
  \<open>{success: true, currentModel}\<close>. \<open>Unhandled\<close> is an exception that leaves the
  handler: no response is written by it.
\<close>

datatype body =
    Conversations "conversation list"
  | Messages "message list"
  | WrappedMessages "message list"
  | Created conversation
  | ChatReply string string
  | SuccessTrue
  | ModelSelected model_ref
  | Models "string list"
  | ErrorBody string "string option" "int option"

datatype response = Json nat body | Unhandled

section \<open>Numbers in the rate-limit branch\<close>

text \<open>
  JavaScript numbers are modelled as integers: every number of the branch is an integer
  or the ceiling or floor of a quotient, which the model computes exactly. (Doubles do
  the same as long as the header's value stays far below \<open>2^53\<close>.) \<open>NaN\<close> is \<open>None\<close>.
\<close>

definition isStrWhiteSpaceChar :: "char \<Rightarrow> bool" where
  "isStrWhiteSpaceChar c =
     (c \<in> set [CHR 0x09, CHR 0x0A, CHR 0x0B, CHR 0x0C, CHR 0x0D, CHR 0x20, CHR 0xA0])"

definition digit_value :: "char \<Rightarrow> nat option" where
  "digit_value c =
     (let n = (of_char c :: nat) in
      if 48 \<le> n \<and> n \<le> 57 then Some (n - 48)
      else if 97 \<le> n \<and> n \<le> 122 then Some (n - 87)
      else if 65 \<le> n \<and> n \<le> 90 then Some (n - 55)
      else None)"

definition is_radix_digit :: "nat \<Rightarrow> char \<Rightarrow> bool" where
  "is_radix_digit R c = (case digit_value c of Some d \<Rightarrow> d < R | None \<Rightarrow> False)"

definition radix_value :: "nat \<Rightarrow> string \<Rightarrow> nat" where
  "radix_value R Z =
     foldl (\<lambda>acc c. acc * R + (case digit_value c of Some d \<Rightarrow> d | None \<Rightarrow> 0)) 0 Z"

text \<open>
  \<open>parseInt(string)\<close> with no radix: leading white space is skipped, a sign is read, a
  \<open>0x\<close> or \<open>0X\<close> prefix selects radix 16, and the longest run of digits is the value;
  no digit at all gives \<open>NaN\<close>.
\<close>

definition parseInt :: "string \<Rightarrow> int option" where
  "parseInt inputString =
     (let S = dropWhile isStrWhiteSpaceChar inputString;
          sign = (if take 1 S = ''-'' then - 1 else (1::int));
          S1 = (if take 1 S = ''+'' \<or> take 1 S = ''-'' then drop 1 S else S);
          hex = (take 2 S1 = ''0x'' \<or> take 2 S1 = ''0X'');
          R = (if hex then 16 else 10);
          S2 = (if hex then drop 2 S1 else S1);
          Z = takeWhile (is_radix_digit R) S2
      in if Z = [] then None else Some (sign * int (radix_value R Z)))"

text \<open>\<open>ToString\<close> of a header value that may be \<open>undefined\<close>.\<close>

definition ToString :: "string option \<Rightarrow> string" where
  "ToString v = (case v of None \<Rightarrow> ''undefined'' | Some s \<Rightarrow> s)"

text \<open>\<open>x || 0\<close> on a number: \<open>NaN\<close> and \<open>0\<close> are falsy.\<close>

definition or_zero :: "int option \<Rightarrow> int" where
  "or_zero x = (case x of None \<Rightarrow> 0 | Some n \<Rightarrow> if n = 0 then 0 else n)"

text \<open>\<open>Math.ceil(a / b)\<close> and \<open>Math.floor(a / b)\<close> for a positive divisor, and the
  remainder \<open>a % b\<close>, which takes the sign of the dividend.\<close>

definition ceil_div :: "int \<Rightarrow> int \<Rightarrow> int" where
  "ceil_div a b = - ((- a) div b)"

definition floor_div :: "int \<Rightarrow> int \<Rightarrow> int" where
  "floor_div a b = a div b"

definition js_rem :: "int \<Rightarrow> int \<Rightarrow> int" where
  "js_rem a b = sgn a * (\<bar>a\<bar> mod \<bar>b\<bar>)"

text \<open>The decimal text a template literal gives an integer.\<close>

fun nat_to_string :: "nat \<Rightarrow> string" where
  "nat_to_string n =
     (if n < 10 then [char_of (48 + n)]
      else nat_to_string (n div 10) @ [char_of (48 + n mod 10)])"

declare nat_to_string.simps [simp del]

definition Number_toString :: "int \<Rightarrow> string" where
  "Number_toString i =
     (if i < 0 then CHR ''-'' # nat_to_string (nat (- i)) else nat_to_string (nat i))"

section \<open>Errors of the completion call\<close>

text \<open>
  What the \<open>catch\<close> block of the chat handler reads of a thrown error: \<open>error.status\<close>
  and \<open>error.headers\<close>, each \<open>None\<close> when \<open>undefined\<close>.
\<close>

record api_error =
  err_status :: "nat option"
  err_headers :: "(string \<times> string) list option"

text \<open>The outcome of \<open>openaiClient.chat.completions.create\<close>: a thrown error, or a
  completion whose \<open>choices[i].message.content\<close> are listed.\<close>

datatype api_result = Rejected api_error | Completion "string list"

text \<open>A \<open>TypeError\<close> raised inside the \<open>try\<close> block has neither property.\<close>

definition TypeError :: api_error where
  "TypeError = \<lparr>err_status = None, err_headers = None\<rparr>"

definition retry_after_header :: "api_error \<Rightarrow> string option" where
  "retry_after_header error =
     (case err_headers error of None \<Rightarrow> None | Some hs \<Rightarrow> map_of hs ''retry-after'')"

definition wait_message :: "int \<Rightarrow> string" where
  "wait_message waitTimeSeconds =
     (let waitTimeMinutes = ceil_div waitTimeSeconds 60;
          waitTimeHours = floor_div waitTimeMinutes 60
      in ''Rate limit exceeded. '' @
         (if waitTimeHours > 0
          then ''Please wait approximately '' @ Number_toString waitTimeHours @
               '' hours and '' @ Number_toString (js_rem waitTimeMinutes 60) @
               '' minutes before trying again.''
          else ''Please wait approximately '' @ Number_toString waitTimeMinutes @
               '' minutes before trying again.''))"

text \<open>The \<open>catch\<close> block of \<open>POST /api/chat\<close>, the same in the three variants.\<close>

definition chat_catch :: "api_error \<Rightarrow> response" where
  "chat_catch error =
     (if err_status error = Some 429 then
        (let waitTimeSeconds = or_zero (parseInt (ToString (retry_after_header error)))
         in Json 429 (ErrorBody (wait_message waitTimeSeconds)
                        (Some ''RATE_LIMIT_EXCEEDED'') (Some waitTimeSeconds)))
      else if err_status error = Some 413 then
        Json 413 (ErrorBody ''File size is too large. Maximum allowed size is 1MB per file.''
                    (Some ''PAYLOAD_TOO_LARGE'') None)
      else if err_status error = Some 400 then
        Json 400 (ErrorBody ''Invalid request. Please check your inputs.''
                    (Some ''BAD_REQUEST'') None)
      else Unhandled)"

section \<open>Array operations of the in-memory variant\<close>

text \<open>\<open>Array.prototype.findIndex\<close>: the first index whose element satisfies the
  predicate, \<open>None\<close> for the source's \<open>-1\<close>.\<close>

fun findIndex :: "('a \<Rightarrow> bool) \<Rightarrow> 'a list \<Rightarrow> nat option" where
  "findIndex P [] = None"
| "findIndex P (x # xs) =
     (if P x then Some 0 else (case findIndex P xs of None \<Rightarrow> None | Some i \<Rightarrow> Some (Suc i)))"

text \<open>\<open>arr.splice(index, 1)\<close>: removes the element at \<open>index\<close>; a start at or beyond
  the length removes nothing.\<close>

definition splice1 :: "nat \<Rightarrow> 'a list \<Rightarrow> 'a list" where
  "splice1 index arr = take index arr @ drop (Suc index) arr"

text \<open>
  \<open>arr.forEach((msg, index) => { if (P msg) indices.unshift(index) })\<close>: the walk over
  the array from \<open>index\<close> on, each matching index put at the front of \<open>indices\<close>.
\<close>

fun collect_indices :: "('a \<Rightarrow> bool) \<Rightarrow> 'a list \<Rightarrow> nat \<Rightarrow> nat list \<Rightarrow> nat list" where
  "collect_indices P [] index indices = indices"
| "collect_indices P (msg # rest) index indices =
     collect_indices P rest (Suc index) (if P msg then index # indices else indices)"

text \<open>\<open>indices.forEach(index => arr.splice(index, 1))\<close>.\<close>

fun splice_each :: "nat list \<Rightarrow> 'a list \<Rightarrow> 'a list" where
  "splice_each [] arr = arr"
| "splice_each (index # indices) arr = splice_each indices (splice1 index arr)"

text \<open>The cascade of the in-memory delete handler on one array.\<close>

definition remove_matching :: "('a \<Rightarrow> bool) \<Rightarrow> 'a list \<Rightarrow> 'a list" where
  "remove_matching P arr = splice_each (collect_indices P arr 0 []) arr"

section \<open>Server state\<close>

text \<open>The process-wide variable \<open>currentModel\<close>, shared by the three variants.\<close>

record server =
  currentModel :: model_ref

text \<open>
  The file variant: the three JSON documents under \<open>data/\<close>, each holding one array.
  A file is \<open>None\<close> when \<open>readJsonFile\<close> returns \<open>null\<close> for it (it cannot be read
  or parsed); \<open>disk_writable\<close> tells whether \<open>fs.writeFile\<close> succeeds.
\<close>

record file_server = server +
  conversations_file :: "conversation list option"
  messages_file :: "message list option"
  debug_messages_file :: "message list option"
  disk_writable :: bool

text \<open>The in-memory variant: three arrays, empty when the process starts.\<close>

record mem_server = server +
  CONVERSATIONS :: "conversation list"
  MESSAGES :: "message list"
  DEBUG_MESSAGES :: "message list"

definition mem_initial :: mem_server where
  "mem_initial =
     \<lparr>currentModel = ModelName ''gpt-4o'', CONVERSATIONS = [], MESSAGES = [],
      DEBUG_MESSAGES = []\<rparr>"

text \<open>What one chat turn reads from the environment: the two \<open>uuidv4()\<close> results and
  the two \<open>new Date()\<close> instants, in the order the handler reads them.\<close>

record chat_env =
  env_messageId :: string
  env_aiMessageId :: string
  env_user_created_at :: timestamp
  env_ai_created_at :: timestamp

text \<open>What a chat turn did: the requests it sent to the completion API, its response
  and the server state it left.\<close>

record 's chat_outcome =
  api_calls :: "completion_request list"
  chat_response :: response
  chat_server :: 's

text \<open>\<open>POST /api/models/select\<close>, the same in the three variants.\<close>

definition post_models_select :: "string \<Rightarrow> 's server_scheme \<Rightarrow> response \<times> 's server_scheme" where
  "post_models_select model s =
     (case get_property model of
        Some v \<Rightarrow>
          if truthy v then (Json 200 (ModelSelected v), s\<lparr>currentModel := v\<rparr>)
          else (Json 400 (ErrorBody ''Invalid model selection'' None None), s)
      | None \<Rightarrow> (Json 400 (ErrorBody ''Invalid model selection'' None None), s))"

text \<open>The argument of \<open>chat.completions.create\<close>.\<close>

definition completion_params :: "'s server_scheme \<Rightarrow> chat_body \<Rightarrow> completion_request" where
  "completion_params s b =
     \<lparr>req_model = currentModel s, req_messages = build_messages b, req_max_tokens = 1000\<rparr>"

definition user_message :: "chat_env \<Rightarrow> chat_body \<Rightarrow> message" where
  "user_message env b =
     \<lparr>msg_id = env_messageId env, msg_conversation_id = body_conversationId b,
      msg_role = ''user'', msg_content = body_message b,
      msg_created_at = env_user_created_at env, msg_message_type = Some ''chat''\<rparr>"

definition assistant_message :: "chat_env \<Rightarrow> chat_body \<Rightarrow> string \<Rightarrow> message" where
  "assistant_message env b content =
     \<lparr>msg_id = env_aiMessageId env, msg_conversation_id = body_conversationId b,
      msg_role = ''assistant'', msg_content = content,
      msg_created_at = env_ai_created_at env, msg_message_type = Some ''chat''\<rparr>"

text \<open>The entry \<open>POST /api/chat/debug\<close> stores: it has no \<open>message_type\<close>.\<close>

definition debug_message :: "string \<Rightarrow> timestamp \<Rightarrow> string \<Rightarrow> string \<Rightarrow> message" where
  "debug_message uuid now content conversationId =
     \<lparr>msg_id = uuid, msg_conversation_id = conversationId, msg_role = ''system'',
      msg_content = content, msg_created_at = now, msg_message_type = None\<rparr>"

section \<open>The file variant\<close>

text \<open>\<open>writeJsonFile\<close> on each of the three files: a failed write is logged and the
  file keeps its content.\<close>

definition write_conversations :: "conversation list \<Rightarrow> file_server \<Rightarrow> file_server" where
  "write_conversations d s = (if disk_writable s then s\<lparr>conversations_file := Some d\<rparr> else s)"

definition write_messages :: "message list \<Rightarrow> file_server \<Rightarrow> file_server" where
  "write_messages d s = (if disk_writable s then s\<lparr>messages_file := Some d\<rparr> else s)"

definition write_debug_messages :: "message list \<Rightarrow> file_server \<Rightarrow> file_server" where
  "write_debug_messages d s =
     (if disk_writable s then s\<lparr>debug_messages_file := Some d\<rparr> else s)"

definition get_conversations_file :: "file_server \<Rightarrow> response" where
  "get_conversations_file s =
     (case conversations_file s of
        None \<Rightarrow> Json 500 (ErrorBody ''Failed to get conversations'' None None)
      | Some conversations \<Rightarrow> Json 200 (Conversations conversations))"

definition get_messages_file :: "string \<Rightarrow> file_server \<Rightarrow> response" where
  "get_messages_file cid s =
     (case messages_file s of
        None \<Rightarrow> Json 500 (ErrorBody ''Failed to get messages'' None None)
      | Some messages \<Rightarrow>
          Json 200 (Messages
            (filter (\<lambda>msg. msg_conversation_id msg = cid \<and> msg_message_type msg = Some ''chat'')
               messages)))"

definition get_debug_file :: "string \<Rightarrow> file_server \<Rightarrow> response" where
  "get_debug_file cid s =
     (case debug_messages_file s of
        None \<Rightarrow> Json 500 (ErrorBody ''Failed to get debug messages'' None None)
      | Some messages \<Rightarrow>
          Json 200 (Messages (filter (\<lambda>msg. msg_conversation_id msg = cid) messages)))"

definition post_conversations_file ::
  "string \<Rightarrow> timestamp \<Rightarrow> string option \<Rightarrow> file_server \<Rightarrow> response \<times> file_server" where
  "post_conversations_file uuid now title s =
     (case conversations_file s of
        None \<Rightarrow> (Json 500 (ErrorBody ''Failed to create conversation'' None None), s)
      | Some conversations \<Rightarrow>
          (let newConversation =
                 \<lparr>conv_id = uuid, conv_title = title, conv_created_at = now\<rparr>
           in (Json 200 (Created newConversation),
               write_conversations (conversations @ [newConversation]) s)))"

definition post_chat_file ::
  "(completion_request \<Rightarrow> api_result) \<Rightarrow> chat_env \<Rightarrow> chat_body \<Rightarrow> file_server \<Rightarrow>
     file_server chat_outcome" where
  "post_chat_file create env b s =
     (let params = completion_params s b in
      case create params of
        Rejected error \<Rightarrow>
          \<lparr>api_calls = [params], chat_response = chat_catch error, chat_server = s\<rparr>
      | Completion choices \<Rightarrow>
          (case choices of
             [] \<Rightarrow> \<lparr>api_calls = [params], chat_response = chat_catch TypeError, chat_server = s\<rparr>
           | aiResponse # _ \<Rightarrow>
               (case messages_file s of
                  None \<Rightarrow>
                    \<lparr>api_calls = [params], chat_response = chat_catch TypeError,
                     chat_server = s\<rparr>
                | Some messages \<Rightarrow>
                    (let withUser = messages @ [user_message env b];
                         s1 = write_messages withUser s;
                         withBoth = withUser @ [assistant_message env b aiResponse];
                         s2 = write_messages withBoth s1
                     in \<lparr>api_calls = [params],
                         chat_response = Json 200 (ChatReply aiResponse (body_conversationId b)),
                         chat_server = s2\<rparr>))))"

definition post_chat_debug_file ::
  "string \<Rightarrow> timestamp \<Rightarrow> string \<Rightarrow> string \<Rightarrow> file_server \<Rightarrow> response \<times> file_server" where
  "post_chat_debug_file uuid now content conversationId s =
     (case debug_messages_file s of
        None \<Rightarrow> (Json 500 (ErrorBody ''Failed to save debug message'' None None), s)
      | Some messages \<Rightarrow>
          (Json 200 SuccessTrue,
           write_debug_messages (messages @ [debug_message uuid now content conversationId]) s))"

text \<open>\<open>DELETE /api/conversations/:id\<close>: three read-filter-write cycles; a file that
  cannot be read ends the handler with the cycles before it done.\<close>

definition delete_conversation_file :: "string \<Rightarrow> file_server \<Rightarrow> response \<times> file_server" where
  "delete_conversation_file cid s =
     (case conversations_file s of
        None \<Rightarrow> (Json 500 (ErrorBody ''Failed to delete conversation'' None None), s)
      | Some conversations \<Rightarrow>
          (let s1 = write_conversations (filter (\<lambda>conv. conv_id conv \<noteq> cid) conversations) s in
           case messages_file s1 of
             None \<Rightarrow> (Json 500 (ErrorBody ''Failed to delete conversation'' None None), s1)
           | Some messages \<Rightarrow>
               (let s2 = write_messages
                           (filter (\<lambda>msg. msg_conversation_id msg \<noteq> cid) messages) s1 in
                case debug_messages_file s2 of
                  None \<Rightarrow> (Json 500 (ErrorBody ''Failed to delete conversation'' None None), s2)
                | Some debugMessages \<Rightarrow>
                    (Json 200 SuccessTrue,
                     write_debug_messages
                       (filter (\<lambda>msg. msg_conversation_id msg \<noteq> cid) debugMessages) s2))))"

section \<open>The in-memory variant\<close>

definition get_conversations_mem :: "mem_server \<Rightarrow> response" where
  "get_conversations_mem s = Json 200 (Conversations (CONVERSATIONS s))"

definition get_messages_mem :: "string \<Rightarrow> mem_server \<Rightarrow> response" where
  "get_messages_mem cid s =
     Json 200 (Messages (filter (\<lambda>msg. msg_conversation_id msg = cid) (MESSAGES s)))"

definition get_debug_mem :: "string \<Rightarrow> mem_server \<Rightarrow> response" where
  "get_debug_mem cid s =
     Json 200 (WrappedMessages (filter (\<lambda>msg. msg_conversation_id msg = cid) (DEBUG_MESSAGES s)))"

text \<open>\<open>POST /api/conversations\<close>: the handler never reads the request body, so the
  new object has an id and a timestamp and no title.\<close>

definition post_conversations_mem ::
  "string \<Rightarrow> timestamp \<Rightarrow> string option \<Rightarrow> mem_server \<Rightarrow> response \<times> mem_server" where
  "post_conversations_mem uuid now title s =
     (let newConversation = \<lparr>conv_id = uuid, conv_title = None, conv_created_at = now\<rparr>
      in (Json 200 (Created newConversation),
          s\<lparr>CONVERSATIONS := CONVERSATIONS s @ [newConversation]\<rparr>))"

definition post_chat_mem ::
  "(completion_request \<Rightarrow> api_result) \<Rightarrow> chat_env \<Rightarrow> chat_body \<Rightarrow> mem_server \<Rightarrow>
     mem_server chat_outcome" where
  "post_chat_mem create env b s =
     (let params = completion_params s b in
      case create params of
        Rejected error \<Rightarrow>
          \<lparr>api_calls = [params], chat_response = chat_catch error, chat_server = s\<rparr>
      | Completion choices \<Rightarrow>
          (case choices of
             [] \<Rightarrow> \<lparr>api_calls = [params], chat_response = chat_catch TypeError, chat_server = s\<rparr>
           | aiResponse # _ \<Rightarrow>
               (let s1 = s\<lparr>MESSAGES := MESSAGES s @ [user_message env b]\<rparr>;
                    s2 = s1\<lparr>MESSAGES := MESSAGES s1 @ [assistant_message env b aiResponse]\<rparr>
                in \<lparr>api_calls = [params],
                    chat_response = Json 200 (ChatReply aiResponse (body_conversationId b)),
                    chat_server = s2\<rparr>)))"

definition post_chat_debug_mem ::
  "string \<Rightarrow> timestamp \<Rightarrow> string \<Rightarrow> string \<Rightarrow> mem_server \<Rightarrow> response \<times> mem_server" where
  "post_chat_debug_mem uuid now content conversationId s =
     (Json 200 SuccessTrue,
      s\<lparr>DEBUG_MESSAGES :=
          DEBUG_MESSAGES s @ [debug_message uuid now content conversationId]\<rparr>)"

definition delete_conversation_mem :: "string \<Rightarrow> mem_server \<Rightarrow> response \<times> mem_server" where
  "delete_conversation_mem cid s =
     (let s1 = (case findIndex (\<lambda>conv. conv_id conv = cid) (CONVERSATIONS s) of
                  None \<Rightarrow> s
                | Some conversationIndex \<Rightarrow>
                    s\<lparr>CONVERSATIONS := splice1 conversationIndex (CONVERSATIONS s)\<rparr>);
          s2 = s1\<lparr>MESSAGES :=
                 remove_matching (\<lambda>msg. msg_conversation_id msg = cid) (MESSAGES s1)\<rparr>;
          s3 = s2\<lparr>DEBUG_MESSAGES :=
                 remove_matching (\<lambda>msg. msg_conversation_id msg = cid) (DEBUG_MESSAGES s2)\<rparr>
      in (Json 200 SuccessTrue, s3))"

text \<open>
  A request together with what its handler reads from the environment (identifiers,
  instants, the completion service), and the server's reaction to it.
\<close>

datatype event =
    GetConversations
  | GetMessages string
  | GetDebug string
  | PostConversations string timestamp "string option"
  | PostChat "completion_request \<Rightarrow> api_result" chat_env chat_body
  | PostChatDebug string timestamp string string
  | GetModels
  | PostModelsSelect string
  | DeleteConversation string

fun mem_handle :: "event \<Rightarrow> mem_server \<Rightarrow> response \<times> mem_server" where
  "mem_handle GetConversations s = (get_conversations_mem s, s)"
| "mem_handle (GetMessages cid) s = (get_messages_mem cid s, s)"
| "mem_handle (GetDebug cid) s = (get_debug_mem cid s, s)"
| "mem_handle (PostConversations uuid now title) s = post_conversations_mem uuid now title s"
| "mem_handle (PostChat create env b) s =
     (let out = post_chat_mem create env b s in (chat_response out, chat_server out))"
| "mem_handle (PostChatDebug uuid now content conversationId) s =
     post_chat_debug_mem uuid now content conversationId s"
| "mem_handle GetModels s = (Json 200 (Models model_keys), s)"
| "mem_handle (PostModelsSelect model) s = post_models_select model s"
| "mem_handle (DeleteConversation cid) s = delete_conversation_mem cid s"

text \<open>The server after a sequence of requests, and the instants a request's handler
  reads from the clock, in the order it reads them.\<close>

fun mem_run :: "event list \<Rightarrow> mem_server \<Rightarrow> mem_server" where
  "mem_run [] s = s"
| "mem_run (e # es) s = mem_run es (snd (mem_handle e s))"

fun event_times :: "event \<Rightarrow> timestamp list" where
  "event_times (PostConversations uuid now title) = [now]"
| "event_times (PostChat create env b) = [env_user_created_at env, env_ai_created_at env]"
| "event_times (PostChatDebug uuid now content conversationId) = [now]"
| "event_times _ = []"

section \<open>Example states\<close>

text \<open>Two conversations with their chat and debug messages, in the file variant and
  in the in-memory variant.\<close>

definition example_conversations :: "conversation list" where
  "example_conversations =
     [\<lparr>conv_id = ''a'', conv_title = Some ''Algebra'', conv_created_at = 10\<rparr>,
      \<lparr>conv_id = ''b'', conv_title = None, conv_created_at = 20\<rparr>]"

definition example_messages :: "message list" where
  "example_messages =
     [\<lparr>msg_id = ''m1'', msg_conversation_id = ''a'', msg_role = ''user'',
       msg_content = ''2+2?'', msg_created_at = 11, msg_message_type = Some ''chat''\<rparr>,
      \<lparr>msg_id = ''m2'', msg_conversation_id = ''b'', msg_role = ''user'',
       msg_content = ''hello'', msg_created_at = 21, msg_message_type = Some ''chat''\<rparr>,
      \<lparr>msg_id = ''m3'', msg_conversation_id = ''a'', msg_role = ''assistant'',
       msg_content = ''4'', msg_created_at = 22, msg_message_type = Some ''chat''\<rparr>]"

definition example_debug_messages :: "message list" where
  "example_debug_messages =
     [debug_message ''d1'' 12 ''sent'' ''a'', debug_message ''d2'' 23 ''sent'' ''b'']"

definition example_file_server :: file_server where
  "example_file_server =
     \<lparr>currentModel = ModelName ''gpt-4o'',
      conversations_file = Some example_conversations,
      messages_file = Some example_messages,
      debug_messages_file = Some example_debug_messages,
      disk_writable = True\<rparr>"

definition example_mem_server :: mem_server where
  "example_mem_server =
     \<lparr>currentModel = ModelName ''gpt-4o'',
      CONVERSATIONS = example_conversations,
      MESSAGES = example_messages,
      DEBUG_MESSAGES = example_debug_messages\<rparr>"

text \<open>A chat turn in conversation \<open>a\<close>, with and without images, and two
  completion services: one that answers, one that fails.\<close>

definition example_env :: chat_env where
  "example_env =
     \<lparr>env_messageId = ''m4'', env_aiMessageId = ''m5'', env_user_created_at = 30,
      env_ai_created_at = 31\<rparr>"

definition example_body :: chat_body where
  "example_body = \<lparr>body_message = ''3*3?'', body_conversationId = ''a'', body_files = None\<rparr>"

definition example_body_images :: chat_body where
  "example_body_images =
     \<lparr>body_message = [], body_conversationId = ''a'',
      body_files = Some [\<lparr>upload_data = ''data:image/png;base64,AAAA''\<rparr>,
                         \<lparr>upload_data = ''data:image/png;base64,BBBB''\<rparr>]\<rparr>"

definition example_create :: "completion_request \<Rightarrow> api_result" where
  "example_create params = Completion [''9'']"

definition example_create_503 :: "completion_request \<Rightarrow> api_result" where
  "example_create_503 params = Rejected \<lparr>err_status = Some 503, err_headers = Some []\<rparr>"

text \<open>A short life of the in-memory server.\<close>

definition example_events :: "event list" where
  "example_events =
     [PostConversations ''a'' 10 (Some ''Algebra''),
      PostChatDebug ''d1'' 12 ''sent'' ''a'',
      PostChat example_create example_env example_body,
      GetMessages ''a'']"

text \<open>Rate-limit errors: a retry-after of 3661 seconds, an HTTP date, no headers.\<close>

definition example_create_429 :: "completion_request \<Rightarrow> api_result" where
  "example_create_429 params =
     Rejected \<lparr>err_status = Some 429, err_headers = Some [(''retry-after'', ''3661'')]\<rparr>"

definition example_create_429_date :: "completion_request \<Rightarrow> api_result" where
  "example_create_429_date params =
     Rejected \<lparr>err_status = Some 429,
               err_headers = Some [(''retry-after'', ''Wed, 21 Oct 2015 07:28:00 GMT'')]\<rparr>"

definition example_create_429_bare :: "completion_request \<Rightarrow> api_result" where
  "example_create_429_bare params = Rejected \<lparr>err_status = Some 429, err_headers = None\<rparr>"

section \<open>Auxiliary notions of the statements\<close>

text \<open>The \<open>error\<close> property of a response body, empty when it has none.\<close>

definition error_text :: "response \<Rightarrow> string" where
  "error_text r = (case r of Json status (ErrorBody e code retryAfter) \<Rightarrow> e | _ \<Rightarrow> [])"

text \<open>
  The spec's \<open>listMessages(conversationId, type)\<close>: the stored messages of that
  conversation and that type, in the order they are stored.
\<close>

definition listMessages_spec :: "string \<Rightarrow> string \<Rightarrow> message list \<Rightarrow> message list" where
  "listMessages_spec conversationId ty stored =
     filter (\<lambda>msg. msg_conversation_id msg = conversationId \<and> msg_message_type msg = Some ty)
       stored"

text \<open>The characters \<open>0\<close> to \<open>9\<close>.\<close>

definition decimal_digit :: "char \<Rightarrow> bool" where
  "decimal_digit c = (48 \<le> (of_char c :: nat) \<and> (of_char c :: nat) \<le> 57)"

section \<open>The splice loop is a filter\<close>

lemma collect_indices_acc:
  "collect_indices P xs i acc = collect_indices P xs i [] @ acc"
proof (induction xs arbitrary: i acc)
  case Nil
  show ?case by simp
next
  case (Cons x xs)
  show ?case
    using Cons.IH [of "Suc i" "i # acc"] Cons.IH [of "Suc i" "[i]"] Cons.IH [of "Suc i" acc]
    by simp
qed

lemma collect_indices_snoc:
  "collect_indices P (xs @ [x]) i [] =
     (if P x then [i + length xs] else []) @ collect_indices P xs i []"
proof (induction xs arbitrary: i)
  case Nil
  show ?case by simp
next
  case (Cons y ys)
  show ?case
  proof (cases "P y")
    case True
    have "collect_indices P ((y # ys) @ [x]) i [] = collect_indices P (ys @ [x]) (Suc i) [] @ [i]"
      using True collect_indices_acc [of P "ys @ [x]" "Suc i" "[i]"] by simp
    moreover have "collect_indices P (y # ys) i [] = collect_indices P ys (Suc i) [] @ [i]"
      using True collect_indices_acc [of P ys "Suc i" "[i]"] by simp
    ultimately show ?thesis using Cons.IH [of "Suc i"] by simp
  next
    case False
    then show ?thesis using Cons.IH [of "Suc i"] by simp
  qed
qed

lemma collect_indices_bound:
  "j \<in> set (collect_indices P xs i []) \<Longrightarrow> j < i + length xs"
proof (induction xs arbitrary: i j)
  case Nil
  then show ?case by simp
next
  case (Cons x xs)
  from Cons.prems have "j \<in> set (collect_indices P xs (Suc i) []) \<or> j = i"
    using collect_indices_acc [of P xs "Suc i" "[i]"] by (auto split: if_splits)
  then show ?case using Cons.IH [of j "Suc i"] by auto
qed

lemma splice1_append:
  "i < length xs \<Longrightarrow> splice1 i (xs @ ys) = splice1 i xs @ ys"
  by (simp add: splice1_def)

lemma splice1_last: "splice1 (length xs) (xs @ [x]) = xs"
  by (simp add: splice1_def)

lemma length_splice1: "i < length xs \<Longrightarrow> length (splice1 i xs) = length xs - 1"
  by (simp add: splice1_def)

text \<open>Indices in strictly descending order, all inside the array, never reach an
  appended tail.\<close>

lemma splice_each_append:
  "sorted_wrt (>) is \<Longrightarrow> \<forall>j \<in> set is. j < length xs \<Longrightarrow>
     splice_each is (xs @ ys) = splice_each is xs @ ys"
proof (induction "is" arbitrary: xs)
  case Nil
  show ?case by simp
next
  case (Cons i rest)
  have i: "i < length xs" using Cons.prems(2) by simp
  have "\<forall>j \<in> set rest. j < length (splice1 i xs)"
  proof
    fix j assume "j \<in> set rest"
    then have "j < i" using Cons.prems(1) by auto
    then show "j < length (splice1 i xs)" using i by (simp add: length_splice1)
  qed
  moreover have "sorted_wrt (>) rest" using Cons.prems(1) by simp
  ultimately have "splice_each rest (splice1 i xs @ ys) = splice_each rest (splice1 i xs) @ ys"
    by (rule Cons.IH [rotated])
  then show ?case using i by (simp add: splice1_append)
qed

lemma collect_indices_descending: "sorted_wrt (>) (collect_indices P xs 0 [])"
proof (induction xs rule: rev_induct)
  case Nil
  show ?case by simp
next
  case (snoc x xs)
  have "\<forall>j \<in> set (collect_indices P xs 0 []). j < length xs"
    using collect_indices_bound [of _ P xs 0] by simp
  then show ?case using snoc.IH by (auto simp: collect_indices_snoc)
qed

lemma remove_matching_filter: "remove_matching P xs = filter (\<lambda>x. \<not> P x) xs"
proof (induction xs rule: rev_induct)
  case Nil
  show ?case by (simp add: remove_matching_def)
next
  case (snoc x xs)
  have bound: "\<forall>j \<in> set (collect_indices P xs 0 []). j < length xs"
    using collect_indices_bound [of _ P xs 0] by simp
  have desc: "sorted_wrt (>) (collect_indices P xs 0 [])"
    by (rule collect_indices_descending)
  show ?case
  proof (cases "P x")
    case True
    then have "remove_matching P (xs @ [x]) =
        splice_each (collect_indices P xs 0 []) (splice1 (length xs) (xs @ [x]))"
      by (simp add: remove_matching_def collect_indices_snoc)
    also have "\<dots> = remove_matching P xs"
      by (simp add: splice1_last remove_matching_def)
    finally show ?thesis using True snoc.IH by simp
  next
    case False
    then have "remove_matching P (xs @ [x]) = splice_each (collect_indices P xs 0 []) (xs @ [x])"
      by (simp add: remove_matching_def collect_indices_snoc)
    also have "\<dots> = remove_matching P xs @ [x]"
      using splice_each_append [OF desc bound] by (simp add: remove_matching_def)
    finally show ?thesis using False snoc.IH by simp
  qed
qed

section \<open>Deleting a conversation\<close>

lemma splice1_Cons_0: "splice1 0 (x # xs) = xs"
  by (simp add: splice1_def)

lemma splice1_Cons_Suc: "splice1 (Suc i) (x # xs) = x # splice1 i xs"
  by (simp add: splice1_def)

lemma findIndex_splice1_filter:
  "distinct (map f xs) \<Longrightarrow>
     (case findIndex (\<lambda>x. f x = k) xs of None \<Rightarrow> xs | Some i \<Rightarrow> splice1 i xs) =
       filter (\<lambda>x. f x \<noteq> k) xs"
proof (induction xs)
  case Nil
  show ?case by simp
next
  case (Cons x xs)
  show ?case
  proof (cases "f x = k")
    case True
    then have "\<forall>y \<in> set xs. f y \<noteq> k" using Cons.prems by (auto simp: image_iff)
    then have "filter (\<lambda>x. f x \<noteq> k) xs = xs" by (simp add: filter_id_conv)
    then show ?thesis using True by (simp add: splice1_Cons_0)
  next
    case False
    then show ?thesis using Cons
      by (simp add: splice1_Cons_Suc split: option.splits)
  qed
qed

lemma delete_conversation_mem_eq:
  "distinct (map conv_id (CONVERSATIONS s)) \<Longrightarrow>
   delete_conversation_mem cid s =
     (Json 200 SuccessTrue,
      s\<lparr>CONVERSATIONS := filter (\<lambda>conv. conv_id conv \<noteq> cid) (CONVERSATIONS s),
        MESSAGES := filter (\<lambda>msg. msg_conversation_id msg \<noteq> cid) (MESSAGES s),
        DEBUG_MESSAGES := filter (\<lambda>msg. msg_conversation_id msg \<noteq> cid) (DEBUG_MESSAGES s)\<rparr>)"
  using findIndex_splice1_filter [of conv_id "CONVERSATIONS s" cid]
  by (simp add: delete_conversation_mem_def remove_matching_filter Let_def split: option.splits)

lemma delete_conversation_file_eq:
  "conversations_file s = Some convs \<Longrightarrow> messages_file s = Some msgs \<Longrightarrow>
   debug_messages_file s = Some dbg \<Longrightarrow> disk_writable s \<Longrightarrow>
   delete_conversation_file cid s =
     (Json 200 SuccessTrue,
      s\<lparr>conversations_file := Some (filter (\<lambda>conv. conv_id conv \<noteq> cid) convs),
        messages_file := Some (filter (\<lambda>msg. msg_conversation_id msg \<noteq> cid) msgs),
        debug_messages_file := Some (filter (\<lambda>msg. msg_conversation_id msg \<noteq> cid) dbg)\<rparr>)"
  by (simp add: delete_conversation_file_def write_conversations_def write_messages_def
      write_debug_messages_def Let_def)

text \<open>
  C10. In the in-memory variant the delete cascade collects the indices of the matching
  messages in descending order (\<open>unshift\<close>) and splices each out. It leaves
  \<open>MESSAGES\<close>, and likewise \<open>DEBUG_MESSAGES\<close>, equal to the array filtered of every
  element whose \<open>conversationId\<close> is the deleted id; the remaining elements keep
  their relative order. The same holds of the loop on any array.
\<close>

theorem delete_cascade_is_filter:
  "MESSAGES (snd (delete_conversation_mem cid s)) =
     filter (\<lambda>msg. msg_conversation_id msg \<noteq> cid) (MESSAGES s) \<and>
   DEBUG_MESSAGES (snd (delete_conversation_mem cid s)) =
     filter (\<lambda>msg. msg_conversation_id msg \<noteq> cid) (DEBUG_MESSAGES s) \<and>
   remove_matching (\<lambda>msg. msg_conversation_id msg = cid) arr =
     filter (\<lambda>msg. msg_conversation_id msg \<noteq> cid) arr"
  by (simp add: delete_conversation_mem_def remove_matching_filter Let_def split: option.splits)

text \<open>
  C2. For every conversation id, deleting the conversation answers \<open>{success: true}\<close>
  whether or not a conversation with that id exists, the conversation listing that
  follows holds the conversations of before without those of that id, and the chat
  messages and the debug messages that remain are those of before without the ones whose
  conversation id is that id. File variant: the three files are readable and writable.
  In-memory variant: the stored conversations have distinct ids, as \<open>uuidv4\<close> gives
  them.
\<close>

theorem delete_conversation_cascade:
  assumes "conversations_file fs = Some convs" and "messages_file fs = Some msgs"
    and "debug_messages_file fs = Some dbg" and "disk_writable fs"
    and "distinct (map conv_id (CONVERSATIONS ms))"
  shows "fst (delete_conversation_file cid fs) = Json 200 SuccessTrue \<and>
     get_conversations_file (snd (delete_conversation_file cid fs)) =
       Json 200 (Conversations (filter (\<lambda>conv. conv_id conv \<noteq> cid) convs)) \<and>
     messages_file (snd (delete_conversation_file cid fs)) =
       Some (filter (\<lambda>msg. msg_conversation_id msg \<noteq> cid) msgs) \<and>
     debug_messages_file (snd (delete_conversation_file cid fs)) =
       Some (filter (\<lambda>msg. msg_conversation_id msg \<noteq> cid) dbg) \<and>
     fst (delete_conversation_mem cid ms) = Json 200 SuccessTrue \<and>
     get_conversations_mem (snd (delete_conversation_mem cid ms)) =
       Json 200 (Conversations (filter (\<lambda>conv. conv_id conv \<noteq> cid) (CONVERSATIONS ms))) \<and>
     MESSAGES (snd (delete_conversation_mem cid ms)) =
       filter (\<lambda>msg. msg_conversation_id msg \<noteq> cid) (MESSAGES ms) \<and>
     DEBUG_MESSAGES (snd (delete_conversation_mem cid ms)) =
       filter (\<lambda>msg. msg_conversation_id msg \<noteq> cid) (DEBUG_MESSAGES ms)"
  using assms
  by (simp add: delete_conversation_file_eq delete_conversation_mem_eq
      get_conversations_file_def get_conversations_mem_def)

text \<open>Deleting conversation \<open>a\<close> from the example states leaves conversation \<open>b\<close>,
  its chat message and its debug message.\<close>

theorem delete_conversation_cascade_witness:
  "fst (delete_conversation_file ''a'' example_file_server) = Json 200 SuccessTrue \<and>
   get_conversations_file (snd (delete_conversation_file ''a'' example_file_server)) =
     Json 200 (Conversations [\<lparr>conv_id = ''b'', conv_title = None, conv_created_at = 20\<rparr>]) \<and>
   map msg_id (the (messages_file (snd (delete_conversation_file ''a'' example_file_server)))) = [''m2''] \<and>
   map msg_id (the (debug_messages_file (snd (delete_conversation_file ''a'' example_file_server)))) = [''d2''] \<and>
   fst (delete_conversation_mem ''a'' example_mem_server) = Json 200 SuccessTrue \<and>
   get_conversations_mem (snd (delete_conversation_mem ''a'' example_mem_server)) =
     Json 200 (Conversations [\<lparr>conv_id = ''b'', conv_title = None, conv_created_at = 20\<rparr>]) \<and>
   map msg_id (MESSAGES (snd (delete_conversation_mem ''a'' example_mem_server))) = [''m2''] \<and>
   map msg_id (DEBUG_MESSAGES (snd (delete_conversation_mem ''a'' example_mem_server))) = [''d2'']"
proof -
  have h1: "conversations_file example_file_server = Some example_conversations"
    and h2: "messages_file example_file_server = Some example_messages"
    and h3: "debug_messages_file example_file_server = Some example_debug_messages"
    and h4: "disk_writable example_file_server"
    by (simp_all add: example_file_server_def)
  have h5: "distinct (map conv_id (CONVERSATIONS example_mem_server))"
    by (simp add: example_mem_server_def example_conversations_def)
  show ?thesis
    using delete_conversation_cascade [OF h1 h2 h3 h4 h5, of "''a''"]
    by (simp add: example_mem_server_def example_conversations_def example_messages_def
        example_debug_messages_def debug_message_def)
qed

text \<open>Deleting an id that no conversation has: the answer is the same and nothing
  changes.\<close>

lemma delete_missing_conversation_example:
  "delete_conversation_file ''zz'' example_file_server = (Json 200 SuccessTrue, example_file_server) \<and>
   delete_conversation_mem ''zz'' example_mem_server = (Json 200 SuccessTrue, example_mem_server)"
  by (simp add: delete_conversation_file_def delete_conversation_mem_def remove_matching_filter
      write_conversations_def write_messages_def write_debug_messages_def Let_def
      example_file_server_def example_mem_server_def example_conversations_def
      example_messages_def example_debug_messages_def debug_message_def)

section \<open>Model selection: what the handler accepts\<close>

lemma select_supported:
  "m \<in> set model_keys \<Longrightarrow>
     post_models_select m s = (Json 200 (ModelSelected (ModelName m)), s\<lparr>currentModel := ModelName m\<rparr>)"
  by (auto simp: model_keys_def AVAILABLE_MODELS_def post_models_select_def get_property_def)

lemma select_unsupported:
  "m \<notin> set model_keys \<Longrightarrow> m \<notin> set Object_prototype \<Longrightarrow>
     post_models_select m s = (Json 400 (ErrorBody ''Invalid model selection'' None None), s)"
  by (simp add: model_keys_def AVAILABLE_MODELS_def post_models_select_def get_property_def)

text \<open>
  C4. The claim: a model string outside the set \<open>{o1, gpt-4o-mini, o1-preview, gpt-4o}\<close>
  leaves \<open>currentModel\<close> unchanged and is answered with status 400. The handler tests
  \<open>AVAILABLE_MODELS[model]\<close>, which is truthy for every property the object inherits:
  the string \<open>constructor\<close> is not one of the four keys, yet it is answered with
  status 200 and \<open>currentModel\<close> becomes the inherited function.
\<close>

theorem select_inherited_member:
  "''constructor'' \<notin> set model_keys \<and>
   post_models_select ''constructor'' s =
     (Json 200 (ModelSelected (Inherited ''constructor'')),
      s\<lparr>currentModel := Inherited ''constructor''\<rparr>)"
  by (simp add: model_keys_def AVAILABLE_MODELS_def post_models_select_def get_property_def
      Object_prototype_def)

section \<open>Creating a conversation\<close>

lemma create_conversation_file:
  "conversations_file s = Some convs \<Longrightarrow> disk_writable s \<Longrightarrow>
   post_conversations_file uuid now title s =
     (Json 200 (Created \<lparr>conv_id = uuid, conv_title = title, conv_created_at = now\<rparr>),
      s\<lparr>conversations_file :=
          Some (convs @ [\<lparr>conv_id = uuid, conv_title = title, conv_created_at = now\<rparr>])\<rparr>)"
  by (simp add: post_conversations_file_def write_conversations_def Let_def)

text \<open>
  C8. The claim: the created conversation holds a fresh id, the supplied title and the
  current timestamp. The file variant stores and returns all three
  (\<open>create_conversation_file\<close>); the in-memory variant never reads the request body:
  asked for a conversation titled \<open>Trip\<close>, it stores and returns one with no title.
\<close>

theorem create_conversation_mem_no_title:
  "post_conversations_mem ''c1'' 1000 (Some ''Trip'') mem_initial =
     (Json 200 (Created \<lparr>conv_id = ''c1'', conv_title = None, conv_created_at = 1000\<rparr>),
      mem_initial\<lparr>CONVERSATIONS :=
        [\<lparr>conv_id = ''c1'', conv_title = None, conv_created_at = 1000\<rparr>]\<rparr>)"
  by (simp add: post_conversations_mem_def mem_initial_def Let_def)

section \<open>The chat turn\<close>

lemma api_calls_post_chat_file:
  "api_calls (post_chat_file create env b s) = [completion_params s b]"
  by (simp add: post_chat_file_def Let_def split: api_result.splits list.splits option.splits)

lemma api_calls_post_chat_mem:
  "api_calls (post_chat_mem create env b s) = [completion_params s b]"
  by (simp add: post_chat_mem_def Let_def split: api_result.splits list.splits)

lemma post_chat_file_rejected:
  "create (completion_params s b) = Rejected error \<Longrightarrow>
     post_chat_file create env b s =
       \<lparr>api_calls = [completion_params s b], chat_response = chat_catch error, chat_server = s\<rparr>"
  by (simp add: post_chat_file_def)

lemma post_chat_mem_rejected:
  "create (completion_params s b) = Rejected error \<Longrightarrow>
     post_chat_mem create env b s =
       \<lparr>api_calls = [completion_params s b], chat_response = chat_catch error, chat_server = s\<rparr>"
  by (simp add: post_chat_mem_def)

lemma post_chat_file_completed:
  "create (completion_params s b) = Completion (reply # others) \<Longrightarrow>
   messages_file s = Some msgs \<Longrightarrow>
     post_chat_file create env b s =
       \<lparr>api_calls = [completion_params s b],
        chat_response = Json 200 (ChatReply reply (body_conversationId b)),
        chat_server =
          (if disk_writable s
           then s\<lparr>messages_file :=
                    Some (msgs @ [user_message env b, assistant_message env b reply])\<rparr>
           else s)\<rparr>"
  by (simp add: post_chat_file_def write_messages_def Let_def)

lemma post_chat_mem_completed:
  "create (completion_params s b) = Completion (reply # others) \<Longrightarrow>
     post_chat_mem create env b s =
       \<lparr>api_calls = [completion_params s b],
        chat_response = Json 200 (ChatReply reply (body_conversationId b)),
        chat_server =
          s\<lparr>MESSAGES := MESSAGES s @ [user_message env b, assistant_message env b reply]\<rparr>\<rparr>"
  by (simp add: post_chat_mem_def Let_def)

lemma length_system_instruction:
  "length system_instruction = 889"
  by (simp add: system_instruction_def)

text \<open>
  C5. A chat request with \<open>N \<ge> 1\<close> attached images has a multi-part user turn: one
  text segment (the request text, or the default prompt when the text is empty) followed
  by \<open>N\<close> image segments, each carrying its attachment's payload, in the order of the
  attachments. A request with no images (no \<open>files\<close>, or an empty array) has the plain
  request text as its user turn. In both variants this user turn is the second element of
  the messages the one completion call sends.
\<close>

theorem user_turn_shape:
  "(body_files b = Some fs \<and> fs \<noteq> [] \<longrightarrow>
      user_turn b =
        \<lparr>turn_role = ''user'',
         turn_content = Parts
           (TextPart (if body_message b = [] then default_prompt else body_message b)
            # map (\<lambda>file. ImageUrlPart (upload_data file)) fs)\<rparr>) \<and>
   (body_files b = None \<or> body_files b = Some [] \<longrightarrow>
      user_turn b = \<lparr>turn_role = ''user'', turn_content = Plain (body_message b)\<rparr>) \<and>
   map req_messages (api_calls (post_chat_file create env b fsrv)) =
     [[\<lparr>turn_role = ''system'', turn_content = Plain system_instruction\<rparr>, user_turn b]] \<and>
   map req_messages (api_calls (post_chat_mem create env b msrv)) =
     [[\<lparr>turn_role = ''system'', turn_content = Plain system_instruction\<rparr>, user_turn b]]"
proof -
  have "body_files b = Some fs \<and> fs \<noteq> [] \<longrightarrow>
      user_turn b =
        \<lparr>turn_role = ''user'',
         turn_content = Parts
           (TextPart (if body_message b = [] then default_prompt else body_message b)
            # map (\<lambda>file. ImageUrlPart (upload_data file)) fs)\<rparr>"
    by (cases fs) (simp_all add: user_turn_def)
  moreover have "body_files b = None \<or> body_files b = Some [] \<longrightarrow>
      user_turn b = \<lparr>turn_role = ''user'', turn_content = Plain (body_message b)\<rparr>"
    by (auto simp: user_turn_def)
  moreover have "map req_messages (api_calls (post_chat_file create env b fsrv)) =
     [[\<lparr>turn_role = ''system'', turn_content = Plain system_instruction\<rparr>, user_turn b]]"
    by (simp add: api_calls_post_chat_file completion_params_def build_messages_def)
  moreover have "map req_messages (api_calls (post_chat_mem create env b msrv)) =
     [[\<lparr>turn_role = ''system'', turn_content = Plain system_instruction\<rparr>, user_turn b]]"
    by (simp add: api_calls_post_chat_mem completion_params_def build_messages_def)
  ultimately show ?thesis by blast
qed

text \<open>Two images and an empty text; no images.\<close>

theorem user_turn_shape_witness:
  "user_turn example_body_images =
     \<lparr>turn_role = ''user'',
      turn_content = Parts
        [TextPart ''What do you see in these images?'',
         ImageUrlPart ''data:image/png;base64,AAAA'',
         ImageUrlPart ''data:image/png;base64,BBBB'']\<rparr> \<and>
   user_turn example_body = \<lparr>turn_role = ''user'', turn_content = Plain ''3*3?''\<rparr>"
proof -
  have images: "body_files example_body_images =
      Some [\<lparr>upload_data = ''data:image/png;base64,AAAA''\<rparr>,
            \<lparr>upload_data = ''data:image/png;base64,BBBB''\<rparr>] \<and>
      [\<lparr>upload_data = ''data:image/png;base64,AAAA''\<rparr>,
       \<lparr>upload_data = ''data:image/png;base64,BBBB''\<rparr>] \<noteq> []"
    by (simp add: example_body_images_def)
  have none: "body_files example_body = None \<or> body_files example_body = Some []"
    by (simp add: example_body_def)
  have "user_turn example_body_images =
      \<lparr>turn_role = ''user'',
       turn_content = Parts
         (TextPart (if body_message example_body_images = [] then default_prompt
                    else body_message example_body_images)
          # map (\<lambda>file. ImageUrlPart (upload_data file))
              [\<lparr>upload_data = ''data:image/png;base64,AAAA''\<rparr>,
               \<lparr>upload_data = ''data:image/png;base64,BBBB''\<rparr>])\<rparr>"
    using user_turn_shape [of example_body_images] images by blast
  moreover have "user_turn example_body =
      \<lparr>turn_role = ''user'', turn_content = Plain (body_message example_body)\<rparr>"
    using user_turn_shape [of example_body] none by blast
  ultimately show ?thesis
    by (simp add: example_body_images_def example_body_def default_prompt_def)
qed

text \<open>
  C7. Every chat turn makes one call to the completion API: its messages are the fixed
  system instruction followed by the single user turn, \<open>max_tokens\<close> is 1000 and the
  model is the current value of \<open>currentModel\<close>. When the completion has a first choice
  (and, in the file variant, the messages file can be read), the handler answers with
  that choice's message content, unchanged, and the request's conversation id.
\<close>

theorem chat_completion_call:
  "api_calls (post_chat_file create env b fs) =
     [\<lparr>req_model = currentModel fs,
       req_messages =
         [\<lparr>turn_role = ''system'', turn_content = Plain system_instruction\<rparr>, user_turn b],
       req_max_tokens = 1000\<rparr>] \<and>
   api_calls (post_chat_mem create env b ms) =
     [\<lparr>req_model = currentModel ms,
       req_messages =
         [\<lparr>turn_role = ''system'', turn_content = Plain system_instruction\<rparr>, user_turn b],
       req_max_tokens = 1000\<rparr>] \<and>
   turn_role (user_turn b) = ''user'' \<and>
   (create (completion_params fs b) = Completion (reply # others) \<and>
    messages_file fs = Some msgs \<longrightarrow>
      chat_response (post_chat_file create env b fs) =
        Json 200 (ChatReply reply (body_conversationId b))) \<and>
   (create (completion_params ms b) = Completion (reply # others) \<longrightarrow>
      chat_response (post_chat_mem create env b ms) =
        Json 200 (ChatReply reply (body_conversationId b)))"
proof -
  have "api_calls (post_chat_file create env b fs) =
     [\<lparr>req_model = currentModel fs,
       req_messages =
         [\<lparr>turn_role = ''system'', turn_content = Plain system_instruction\<rparr>, user_turn b],
       req_max_tokens = 1000\<rparr>]"
    by (simp add: api_calls_post_chat_file completion_params_def build_messages_def)
  moreover have "api_calls (post_chat_mem create env b ms) =
     [\<lparr>req_model = currentModel ms,
       req_messages =
         [\<lparr>turn_role = ''system'', turn_content = Plain system_instruction\<rparr>, user_turn b],
       req_max_tokens = 1000\<rparr>]"
    by (simp add: api_calls_post_chat_mem completion_params_def build_messages_def)
  moreover have "turn_role (user_turn b) = ''user''"
    by (simp add: user_turn_def split: option.splits list.splits)
  moreover have "create (completion_params fs b) = Completion (reply # others) \<and>
    messages_file fs = Some msgs \<longrightarrow>
      chat_response (post_chat_file create env b fs) =
        Json 200 (ChatReply reply (body_conversationId b))"
    by (simp add: post_chat_file_completed)
  moreover have "create (completion_params ms b) = Completion (reply # others) \<longrightarrow>
      chat_response (post_chat_mem create env b ms) =
        Json 200 (ChatReply reply (body_conversationId b))"
    by (simp add: post_chat_mem_completed)
  ultimately show ?thesis by blast
qed

theorem chat_completion_call_witness:
  "chat_response (post_chat_file example_create example_env example_body example_file_server) =
     Json 200 (ChatReply ''9'' ''a'') \<and>
   chat_response (post_chat_mem example_create example_env example_body example_mem_server) =
     Json 200 (ChatReply ''9'' ''a'') \<and>
   api_calls (post_chat_file example_create example_env example_body example_file_server) =
     [\<lparr>req_model = ModelName ''gpt-4o'',
       req_messages =
         [\<lparr>turn_role = ''system'', turn_content = Plain system_instruction\<rparr>,
          \<lparr>turn_role = ''user'', turn_content = Plain ''3*3?''\<rparr>],
       req_max_tokens = 1000\<rparr>]"
proof -
  have completed:
    "example_create (completion_params example_file_server example_body) = Completion [''9'']"
    "example_create (completion_params example_mem_server example_body) = Completion [''9'']"
    by (simp_all add: example_create_def)
  have files: "messages_file example_file_server = Some example_messages"
    by (simp add: example_file_server_def)
  note call =
    chat_completion_call [of example_create example_env example_body example_file_server
      example_mem_server "''9''" "[]" example_messages]
  have "chat_response (post_chat_file example_create example_env example_body example_file_server) =
      Json 200 (ChatReply ''9'' (body_conversationId example_body))"
    using call completed files by blast
  moreover have
    "chat_response (post_chat_mem example_create example_env example_body example_mem_server) =
      Json 200 (ChatReply ''9'' (body_conversationId example_body))"
    using call completed by blast
  moreover have
    "api_calls (post_chat_file example_create example_env example_body example_file_server) =
     [\<lparr>req_model = currentModel example_file_server,
       req_messages =
         [\<lparr>turn_role = ''system'', turn_content = Plain system_instruction\<rparr>,
          user_turn example_body],
       req_max_tokens = 1000\<rparr>]"
    using call by blast
  ultimately show ?thesis
    by (simp add: example_body_def example_file_server_def user_turn_def)
qed

text \<open>
  C1. If the completion call raises, the chat handler leaves the server state as it
  was: no message is stored. If it returns a completion with a first choice (and, in the
  file variant, the messages file is readable and writable), the state changes by exactly
  two messages appended for the request's conversation id: first one of role \<open>user\<close>
  with the request text, then one of role \<open>assistant\<close> with the reply; the message
  listing of that conversation then ends with these two, in this order.
\<close>

theorem chat_turn_persistence:
  "(create (completion_params fs b) = Rejected error \<longrightarrow>
      chat_server (post_chat_file create env b fs) = fs) \<and>
   (create (completion_params ms b) = Rejected error \<longrightarrow>
      chat_server (post_chat_mem create env b ms) = ms) \<and>
   (create (completion_params fs b) = Completion (reply # others) \<and>
    messages_file fs = Some msgs \<and> disk_writable fs \<longrightarrow>
      chat_server (post_chat_file create env b fs) =
        fs\<lparr>messages_file :=
             Some (msgs @ [user_message env b, assistant_message env b reply])\<rparr> \<and>
      get_messages_file (body_conversationId b) (chat_server (post_chat_file create env b fs)) =
        Json 200 (Messages
          (filter (\<lambda>msg. msg_conversation_id msg = body_conversationId b \<and>
                         msg_message_type msg = Some ''chat'') msgs
           @ [user_message env b, assistant_message env b reply]))) \<and>
   (create (completion_params ms b) = Completion (reply # others) \<longrightarrow>
      chat_server (post_chat_mem create env b ms) =
        ms\<lparr>MESSAGES := MESSAGES ms @ [user_message env b, assistant_message env b reply]\<rparr> \<and>
      get_messages_mem (body_conversationId b) (chat_server (post_chat_mem create env b ms)) =
        Json 200 (Messages
          (filter (\<lambda>msg. msg_conversation_id msg = body_conversationId b) (MESSAGES ms)
           @ [user_message env b, assistant_message env b reply]))) \<and>
   msg_role (user_message env b) = ''user'' \<and>
   msg_content (user_message env b) = body_message b \<and>
   msg_conversation_id (user_message env b) = body_conversationId b \<and>
   msg_role (assistant_message env b reply) = ''assistant'' \<and>
   msg_content (assistant_message env b reply) = reply \<and>
   msg_conversation_id (assistant_message env b reply) = body_conversationId b"
proof -
  have "create (completion_params fs b) = Rejected error \<longrightarrow>
      chat_server (post_chat_file create env b fs) = fs"
    by (simp add: post_chat_file_rejected)
  moreover have "create (completion_params ms b) = Rejected error \<longrightarrow>
      chat_server (post_chat_mem create env b ms) = ms"
    by (simp add: post_chat_mem_rejected)
  moreover have "create (completion_params fs b) = Completion (reply # others) \<and>
    messages_file fs = Some msgs \<and> disk_writable fs \<longrightarrow>
      chat_server (post_chat_file create env b fs) =
        fs\<lparr>messages_file :=
             Some (msgs @ [user_message env b, assistant_message env b reply])\<rparr> \<and>
      get_messages_file (body_conversationId b) (chat_server (post_chat_file create env b fs)) =
        Json 200 (Messages
          (filter (\<lambda>msg. msg_conversation_id msg = body_conversationId b \<and>
                         msg_message_type msg = Some ''chat'') msgs
           @ [user_message env b, assistant_message env b reply]))"
    by (simp add: post_chat_file_completed get_messages_file_def user_message_def
        assistant_message_def)
  moreover have "create (completion_params ms b) = Completion (reply # others) \<longrightarrow>
      chat_server (post_chat_mem create env b ms) =
        ms\<lparr>MESSAGES := MESSAGES ms @ [user_message env b, assistant_message env b reply]\<rparr> \<and>
      get_messages_mem (body_conversationId b) (chat_server (post_chat_mem create env b ms)) =
        Json 200 (Messages
          (filter (\<lambda>msg. msg_conversation_id msg = body_conversationId b) (MESSAGES ms)
           @ [user_message env b, assistant_message env b reply]))"
    by (simp add: post_chat_mem_completed get_messages_mem_def user_message_def
        assistant_message_def)
  moreover have "msg_role (user_message env b) = ''user'' \<and>
   msg_content (user_message env b) = body_message b \<and>
   msg_conversation_id (user_message env b) = body_conversationId b \<and>
   msg_role (assistant_message env b reply) = ''assistant'' \<and>
   msg_content (assistant_message env b reply) = reply \<and>
   msg_conversation_id (assistant_message env b reply) = body_conversationId b"
    by (simp add: user_message_def assistant_message_def)
  ultimately show ?thesis
    by blast
qed

text \<open>A failing service and an answering one, on the example states.\<close>

theorem chat_turn_persistence_witness:
  "chat_server (post_chat_file example_create_503 example_env example_body example_file_server) =
     example_file_server \<and>
   chat_server (post_chat_mem example_create_503 example_env example_body example_mem_server) =
     example_mem_server \<and>
   chat_server (post_chat_file example_create example_env example_body example_file_server) =
     example_file_server\<lparr>messages_file :=
       Some (example_messages @ [user_message example_env example_body,
                                 assistant_message example_env example_body ''9''])\<rparr> \<and>
   chat_server (post_chat_mem example_create example_env example_body example_mem_server) =
     example_mem_server\<lparr>MESSAGES :=
       MESSAGES example_mem_server @ [user_message example_env example_body,
                                      assistant_message example_env example_body ''9'']\<rparr> \<and>
   get_messages_file (body_conversationId example_body)
       (chat_server (post_chat_file example_create example_env example_body example_file_server)) =
     Json 200 (Messages
       (filter (\<lambda>msg. msg_conversation_id msg = body_conversationId example_body \<and>
                      msg_message_type msg = Some ''chat'') example_messages
        @ [user_message example_env example_body,
           assistant_message example_env example_body ''9''])) \<and>
   get_messages_mem (body_conversationId example_body)
       (chat_server (post_chat_mem example_create example_env example_body example_mem_server)) =
     Json 200 (Messages
       (filter (\<lambda>msg. msg_conversation_id msg = body_conversationId example_body)
          (MESSAGES example_mem_server)
        @ [user_message example_env example_body,
           assistant_message example_env example_body ''9'']))"
proof -
  have rejected:
    "example_create_503 (completion_params example_file_server example_body) =
       Rejected \<lparr>err_status = Some 503, err_headers = Some []\<rparr>"
    "example_create_503 (completion_params example_mem_server example_body) =
       Rejected \<lparr>err_status = Some 503, err_headers = Some []\<rparr>"
    by (simp_all add: example_create_503_def)
  have completed:
    "example_create (completion_params example_file_server example_body) = Completion [''9'']"
    "example_create (completion_params example_mem_server example_body) = Completion [''9'']"
    by (simp_all add: example_create_def)
  have files: "messages_file example_file_server = Some example_messages"
    "disk_writable example_file_server"
    by (simp_all add: example_file_server_def)
  note fail =
    chat_turn_persistence [of example_create_503 example_file_server example_body
      "\<lparr>err_status = Some 503, err_headers = Some []\<rparr>" example_env example_mem_server]
  note ok =
    chat_turn_persistence [of example_create example_file_server example_body _ example_env
      example_mem_server "''9''" "[]" example_messages]
  show ?thesis
    using fail ok rejected completed files by blast
qed

section \<open>The rate-limit branch\<close>

subsection \<open>Reading back a decimal number\<close>

lemma decimal_digit_char_of: "d < 10 \<Longrightarrow> decimal_digit (char_of (48 + d :: nat))"
  by (simp add: decimal_digit_def)

lemma digit_value_char_of: "d < 10 \<Longrightarrow> digit_value (char_of (48 + d :: nat)) = Some d"
  by (simp add: digit_value_def)

lemma decimal_digit_radix: "decimal_digit c \<Longrightarrow> is_radix_digit 10 c"
  by (auto simp: decimal_digit_def is_radix_digit_def digit_value_def)

lemma decimal_digit_not_space: "decimal_digit c \<Longrightarrow> \<not> isStrWhiteSpaceChar c"
  by (auto simp: decimal_digit_def isStrWhiteSpaceChar_def)

lemma decimal_digit_not_sign:
  "decimal_digit c \<Longrightarrow> c \<noteq> CHR ''-'' \<and> c \<noteq> CHR ''+'' \<and> c \<noteq> CHR ''x'' \<and> c \<noteq> CHR ''X''"
  by (auto simp: decimal_digit_def)

lemma nat_to_string_digits: "\<forall>c \<in> set (nat_to_string n). decimal_digit c"
proof (induction n rule: nat_to_string.induct)
  case (1 n)
  show ?case
  proof (cases "n < 10")
    case True
    then show ?thesis by (subst nat_to_string.simps) (simp add: decimal_digit_char_of)
  next
    case False
    have "n mod 10 < 10" by simp
    then have "decimal_digit (char_of (48 + n mod 10))" by (rule decimal_digit_char_of)
    then show ?thesis using False "1.IH" by (subst nat_to_string.simps) simp
  qed
qed

lemma nat_to_string_nonempty: "nat_to_string n \<noteq> []"
  by (subst nat_to_string.simps) simp

lemma radix_value_snoc:
  "radix_value R (Z @ [c]) =
     radix_value R Z * R + (case digit_value c of Some d \<Rightarrow> d | None \<Rightarrow> 0)"
  by (simp add: radix_value_def)

lemma radix_value_nat_to_string: "radix_value 10 (nat_to_string n) = n"
proof (induction n rule: nat_to_string.induct)
  case (1 n)
  show ?case
  proof (cases "n < 10")
    case True
    then show ?thesis
      by (subst nat_to_string.simps) (simp add: radix_value_def digit_value_char_of)
  next
    case False
    have "radix_value 10 (nat_to_string n) =
        radix_value 10 (nat_to_string (n div 10)) * 10 + n mod 10"
      using False
      by (subst nat_to_string.simps) (simp add: radix_value_snoc digit_value_char_of)
    then show ?thesis using False "1.IH" by simp
  qed
qed

lemma parseInt_decimal:
  assumes "Z \<noteq> []" and "\<forall>c \<in> set Z. decimal_digit c"
  shows "parseInt Z = Some (int (radix_value 10 Z))"
proof -
  obtain c rest where Z: "Z = c # rest" using assms(1) by (cases Z) auto
  have c: "decimal_digit c" using assms(2) Z by simp
  have drop: "dropWhile isStrWhiteSpaceChar Z = Z"
    using c Z by (simp add: decimal_digit_not_space)
  have sign: "take 1 Z \<noteq> ''-''" "take 1 Z \<noteq> ''+''"
    using c Z decimal_digit_not_sign [of c] by auto
  have hex: "take 2 Z \<noteq> ''0x''" "take 2 Z \<noteq> ''0X''"
  proof -
    show "take 2 Z \<noteq> ''0x''"
    proof (cases rest)
      case Nil
      then show ?thesis using Z by simp
    next
      case (Cons c2 rest2)
      then have "decimal_digit c2" using assms(2) Z by simp
      then show ?thesis using Z Cons decimal_digit_not_sign [of c2] by auto
    qed
    show "take 2 Z \<noteq> ''0X''"
    proof (cases rest)
      case Nil
      then show ?thesis using Z by simp
    next
      case (Cons c2 rest2)
      then have "decimal_digit c2" using assms(2) Z by simp
      then show ?thesis using Z Cons decimal_digit_not_sign [of c2] by auto
    qed
  qed
  have all: "takeWhile (is_radix_digit 10) Z = Z"
    using assms(2) by (simp add: takeWhile_eq_all_conv decimal_digit_radix)
  show ?thesis
    unfolding parseInt_def Let_def using sign hex assms(1) by (simp add: drop all)
qed

lemma parseInt_nat_to_string: "parseInt (nat_to_string S) = Some (int S)"
  using parseInt_decimal [OF nat_to_string_nonempty nat_to_string_digits, of S]
  by (simp add: radix_value_nat_to_string)

subsection \<open>The wait message\<close>

lemma ceil_div_nat: "ceil_div (int S) 60 = int ((S + 59) div 60)"
  unfolding ceil_div_def by (simp add: zdiv_int)

lemma Number_toString_nat: "Number_toString (int n) = nat_to_string n"
  by (simp add: Number_toString_def)

lemma js_rem_nat: "js_rem (int a) (int b) = int (a mod b)"
  by (cases "a = 0") (simp_all add: js_rem_def zmod_int)

lemma wait_message_nat:
  "wait_message (int S) =
     ''Rate limit exceeded. '' @
     (if 60 \<le> (S + 59) div 60
      then ''Please wait approximately '' @ nat_to_string ((S + 59) div 60 div 60) @
           '' hours and '' @ nat_to_string ((S + 59) div 60 mod 60) @
           '' minutes before trying again.''
      else ''Please wait approximately '' @ nat_to_string ((S + 59) div 60) @
           '' minutes before trying again.'')"
proof -
  have hours: "floor_div (int ((S + 59) div 60)) 60 = int ((S + 59) div 60 div 60)"
    by (simp add: floor_div_def zdiv_int)
  have rem: "js_rem (int ((S + 59) div 60)) 60 = int ((S + 59) div 60 mod 60)"
    using js_rem_nat [of "(S + 59) div 60" 60] by simp
  have pos: "(0 < int ((S + 59) div 60 div 60)) = (60 \<le> (S + 59) div 60)"
    by (simp add: div_greater_zero_iff)
  show ?thesis
    unfolding wait_message_def Let_def ceil_div_nat hours rem pos Number_toString_nat
    by simp
qed

lemma chat_catch_429:
  "err_status error = Some 429 \<Longrightarrow>
     chat_catch error =
       Json 429 (ErrorBody
         (wait_message (or_zero (parseInt (ToString (retry_after_header error)))))
         (Some ''RATE_LIMIT_EXCEEDED'')
         (Some (or_zero (parseInt (ToString (retry_after_header error))))))"
  by (simp add: chat_catch_def Let_def)

lemma or_zero_Some: "or_zero (Some n) = n"
  by (simp add: or_zero_def)

lemma parseInt_undefined: "parseInt ''undefined'' = None"
  by code_simp

lemma wait_message_0:
  "wait_message 0 =
     ''Rate limit exceeded. Please wait approximately 0 minutes before trying again.''"
  by code_simp

lemma nat_to_string_examples:
  "nat_to_string 3661 = ''3661''" "nat_to_string (Suc 0) = ''1''" "nat_to_string 2 = ''2''"
  by code_simp+

lemma parseInt_http_date: "parseInt ''Wed, 21 Oct 2015 07:28:00 GMT'' = None"
  by code_simp

text \<open>\<open>parseInt\<close> reads a leading integer and ignores what follows it; only a text
  with no leading digits is \<open>NaN\<close>.\<close>

lemma parseInt_examples:
  "parseInt ''12abc'' = Some 12" "parseInt '' 42'' = Some 42" "parseInt ''-7'' = Some (- 7)"
  "parseInt ''0x1f'' = Some 31" "parseInt [] = None" "parseInt ''soon'' = None"
  by code_simp+

text \<open>
  C3, as stated, fails: with a retry-after header of 3661 seconds the handler computes
  \<open>Math.ceil(3661 / 60) = 62\<close> minutes, that is 1 hour and 2 minutes, and its message
  does not contain \<open>1 hours and 1 minutes\<close>.
\<close>

theorem rate_limit_3661_counterexample:
  "error_text (chat_response
      (post_chat_file example_create_429 example_env example_body example_file_server)) =
     ''Rate limit exceeded. Please wait approximately 1 hours and 2 minutes before trying again.'' \<and>
   \<not> sublist ''1 hours and 1 minutes''
      (error_text (chat_response
        (post_chat_file example_create_429 example_env example_body example_file_server)))"
proof -
  have "chat_catch \<lparr>err_status = Some 429, err_headers = Some [(''retry-after'', ''3661'')]\<rparr> =
     Json 429 (ErrorBody
       ''Rate limit exceeded. Please wait approximately 1 hours and 2 minutes before trying again.''
       (Some ''RATE_LIMIT_EXCEEDED'') (Some 3661))"
    by code_simp
  then have "error_text (chat_response
      (post_chat_file example_create_429 example_env example_body example_file_server)) =
     ''Rate limit exceeded. Please wait approximately 1 hours and 2 minutes before trying again.''"
    by (simp add: post_chat_file_def example_create_429_def error_text_def)
  moreover have "\<not> sublist ''1 hours and 1 minutes''
     ''Rate limit exceeded. Please wait approximately 1 hours and 2 minutes before trying again.''"
    by code_simp
  ultimately show ?thesis by simp
qed

text \<open>
  C3, amended. When the provider's error has status 429 and a retry-after header of \<open>S\<close>
  seconds (the decimal text of \<open>S\<close>, for \<open>S\<close> below \<open>2^32\<close>, where the handler's
  arithmetic on doubles is exact), the chat handler answers with status 429, code
  \<open>RATE_LIMIT_EXCEEDED\<close>, \<open>retryAfter\<close> equal to \<open>S\<close> and a message that gives the wait
  rounded up to whole minutes, \<open>M = \<lceil>S / 60\<rceil>\<close>: \<open>M div 60\<close> hours and \<open>M mod 60\<close>
  minutes when \<open>M\<close> is at least 60, \<open>M\<close> minutes otherwise. For 3661 seconds the
  message says \<open>1 hours and 2 minutes\<close>.
\<close>

theorem rate_limit_wait_message:
  assumes "S < 2 ^ 32"
    and "err_status (error :: api_error) = Some 429"
    and "err_headers error = Some hs"
    and "map_of hs ''retry-after'' = Some (nat_to_string S)"
    and "create (completion_params fs b) = Rejected error"
  shows "chat_response (post_chat_file create env b fs) = chat_catch error \<and>
     chat_catch error =
       Json 429 (ErrorBody
         (''Rate limit exceeded. '' @
          (if 60 \<le> (S + 59) div 60
           then ''Please wait approximately '' @ nat_to_string ((S + 59) div 60 div 60) @
                '' hours and '' @ nat_to_string ((S + 59) div 60 mod 60) @
                '' minutes before trying again.''
           else ''Please wait approximately '' @ nat_to_string ((S + 59) div 60) @
                '' minutes before trying again.''))
         (Some ''RATE_LIMIT_EXCEEDED'') (Some (int S)))"
proof -
  have "retry_after_header error = Some (nat_to_string S)"
    using assms(3,4) by (simp add: retry_after_header_def)
  then have "or_zero (parseInt (ToString (retry_after_header error))) = int S"
    by (simp add: ToString_def parseInt_nat_to_string or_zero_Some)
  then have "chat_catch error =
      Json 429 (ErrorBody (wait_message (int S)) (Some ''RATE_LIMIT_EXCEEDED'') (Some (int S)))"
    using chat_catch_429 [OF assms(2)] by simp
  moreover have "chat_response (post_chat_file create env b fs) = chat_catch error"
    using assms(5) by (simp add: post_chat_file_rejected)
  ultimately show ?thesis
    by (simp only: wait_message_nat simp_thms)
qed

theorem rate_limit_wait_message_witness:
  "chat_response (post_chat_file example_create_429 example_env example_body example_file_server) =
     Json 429 (ErrorBody
       ''Rate limit exceeded. Please wait approximately 1 hours and 2 minutes before trying again.''
       (Some ''RATE_LIMIT_EXCEEDED'') (Some 3661))"
proof -
  let ?error = "\<lparr>err_status = Some 429, err_headers = Some [(''retry-after'', ''3661'')]\<rparr>"
  have bound: "(3661::nat) < 2 ^ 32" by simp
  have status: "err_status ?error = Some 429" by simp
  have headers: "err_headers ?error = Some [(''retry-after'', ''3661'')]" by simp
  have header: "map_of [(''retry-after'', ''3661'')] ''retry-after'' = Some (nat_to_string 3661)"
    by (simp add: nat_to_string_examples)
  have rejected: "example_create_429 (completion_params example_file_server example_body) =
      Rejected ?error"
    by (simp add: example_create_429_def)
  have arith: "(3661 + 59) div 60 = (62::nat)" "62 div 60 = (1::nat)" "62 mod 60 = (2::nat)"
    by simp_all
  show ?thesis
    using rate_limit_wait_message
      [where S = 3661 and error = ?error and hs = "[(''retry-after'', ''3661'')]"
         and create = example_create_429 and fs = example_file_server and b = example_body
         and env = example_env, OF bound status headers header rejected]
    by (simp add: arith nat_to_string_examples)
qed

text \<open>
  C9. When the provider's error has status 429 and no retry-after header (no headers at
  all, or none of that name), or a header that \<open>parseInt\<close> reads as \<open>NaN\<close>, the wait
  defaults to 0 seconds: the handler answers with status 429, \<open>retryAfter: 0\<close> and the
  zero-hours message for 0 minutes.
\<close>

theorem rate_limit_default_wait:
  assumes "err_status (error :: api_error) = Some 429"
    and "retry_after_header error = None \<or>
         (retry_after_header error = Some h \<and> parseInt h = None)"
    and "create (completion_params fs b) = Rejected error"
  shows "chat_response (post_chat_file create env b fs) = chat_catch error \<and>
     chat_catch error =
       Json 429 (ErrorBody
         ''Rate limit exceeded. Please wait approximately 0 minutes before trying again.''
         (Some ''RATE_LIMIT_EXCEEDED'') (Some 0))"
proof -
  have "parseInt (ToString (retry_after_header error)) = None"
    using assms(2) by (auto simp: ToString_def parseInt_undefined)
  then have "or_zero (parseInt (ToString (retry_after_header error))) = 0"
    by (simp add: or_zero_def)
  then have "chat_catch error =
      Json 429 (ErrorBody (wait_message 0) (Some ''RATE_LIMIT_EXCEEDED'') (Some 0))"
    using chat_catch_429 [OF assms(1)] by simp
  moreover have "chat_response (post_chat_file create env b fs) = chat_catch error"
    using assms(3) by (simp add: post_chat_file_rejected)
  ultimately show ?thesis
    by (simp only: wait_message_0 simp_thms)
qed

text \<open>An error without headers, and one whose retry-after is an HTTP date.\<close>

theorem rate_limit_default_wait_witness:
  "chat_response
     (post_chat_file example_create_429_bare example_env example_body example_file_server) =
     Json 429 (ErrorBody
       ''Rate limit exceeded. Please wait approximately 0 minutes before trying again.''
       (Some ''RATE_LIMIT_EXCEEDED'') (Some 0)) \<and>
   chat_response
     (post_chat_file example_create_429_date example_env example_body example_file_server) =
     Json 429 (ErrorBody
       ''Rate limit exceeded. Please wait approximately 0 minutes before trying again.''
       (Some ''RATE_LIMIT_EXCEEDED'') (Some 0))"
proof -
  let ?bare = "\<lparr>err_status = Some 429, err_headers = None\<rparr>"
  let ?date = "\<lparr>err_status = Some 429,
                 err_headers = Some [(''retry-after'', ''Wed, 21 Oct 2015 07:28:00 GMT'')]\<rparr>"
  have bare: "retry_after_header ?bare = None \<or>
      (retry_after_header ?bare = Some h \<and> parseInt h = None)" for h
    by (simp add: retry_after_header_def)
  have date: "retry_after_header ?date = None \<or>
      (retry_after_header ?date = Some ''Wed, 21 Oct 2015 07:28:00 GMT'' \<and>
       parseInt ''Wed, 21 Oct 2015 07:28:00 GMT'' = None)"
    by (simp add: retry_after_header_def parseInt_http_date)
  have r1: "example_create_429_bare (completion_params example_file_server example_body) =
      Rejected ?bare"
    by (simp add: example_create_429_bare_def)
  have r2: "example_create_429_date (completion_params example_file_server example_body) =
      Rejected ?date"
    by (simp add: example_create_429_date_def)
  show ?thesis
    using rate_limit_default_wait
      [where error = ?bare and h = "[]" and create = example_create_429_bare
         and fs = example_file_server and b = example_body and env = example_env, OF _ bare r1]
      rate_limit_default_wait
      [where error = ?date and h = "''Wed, 21 Oct 2015 07:28:00 GMT''"
         and create = example_create_429_date and fs = example_file_server
         and b = example_body and env = example_env, OF _ date r2]
    by simp
qed

section \<open>Listing the messages of a conversation\<close>

lemma mem_run_append: "mem_run (es @ es') s = mem_run es' (mem_run es s)"
  by (induction es arbitrary: s) simp_all

lemma mem_handle_MESSAGES:
  "(\<exists>P. MESSAGES (snd (mem_handle e s)) = filter P (MESSAGES s)) \<or>
   (\<exists>create env b reply. e = PostChat create env b \<and>
      MESSAGES (snd (mem_handle e s)) =
        MESSAGES s @ [user_message env b, assistant_message env b reply])"
proof (cases e)
  case (PostChat create env b)
  show ?thesis
  proof (cases "create (completion_params s b)")
    case (Rejected error)
    then have "MESSAGES (snd (mem_handle e s)) = filter (\<lambda>_. True) (MESSAGES s)"
      using PostChat by (simp add: post_chat_mem_rejected)
    then show ?thesis by blast
  next
    case (Completion choices)
    show ?thesis
    proof (cases choices)
      case Nil
      then have "MESSAGES (snd (mem_handle e s)) = filter (\<lambda>_. True) (MESSAGES s)"
        using PostChat Completion by (simp add: post_chat_mem_def)
      then show ?thesis by blast
    next
      case (Cons reply others)
      then have "MESSAGES (snd (mem_handle e s)) =
          MESSAGES s @ [user_message env b, assistant_message env b reply]"
        using PostChat Completion by (simp add: post_chat_mem_completed)
      then show ?thesis using PostChat by blast
    qed
  qed
next
  case (DeleteConversation cid)
  then have "MESSAGES (snd (mem_handle e s)) =
      filter (\<lambda>msg. msg_conversation_id msg \<noteq> cid) (MESSAGES s)"
    by (simp add: delete_conversation_mem_def remove_matching_filter Let_def
        split: option.splits)
  then show ?thesis by blast
next
  case (PostModelsSelect model)
  then have "MESSAGES (snd (mem_handle e s)) = filter (\<lambda>_. True) (MESSAGES s)"
    by (simp add: post_models_select_def split: option.splits)
  then show ?thesis by blast
next
  case (PostConversations uuid now title)
  then have "MESSAGES (snd (mem_handle e s)) = filter (\<lambda>_. True) (MESSAGES s)"
    by (simp add: post_conversations_mem_def Let_def)
  then show ?thesis by blast
next
  case (PostChatDebug uuid now content conversationId)
  then have "MESSAGES (snd (mem_handle e s)) = filter (\<lambda>_. True) (MESSAGES s)"
    by (simp add: post_chat_debug_mem_def)
  then show ?thesis by blast
qed (force intro: exI [of _ "\<lambda>_. True"])+

lemma mem_handle_DEBUG_MESSAGES:
  "(\<exists>P. DEBUG_MESSAGES (snd (mem_handle e s)) = filter P (DEBUG_MESSAGES s)) \<or>
   (\<exists>uuid now content conversationId.
      DEBUG_MESSAGES (snd (mem_handle e s)) =
        DEBUG_MESSAGES s @ [debug_message uuid now content conversationId])"
proof (cases e)
  case (PostChat create env b)
  have "DEBUG_MESSAGES (snd (mem_handle e s)) = filter (\<lambda>_. True) (DEBUG_MESSAGES s)"
    using PostChat
    by (simp add: post_chat_mem_def Let_def split: api_result.splits list.splits)
  then show ?thesis by blast
next
  case (DeleteConversation cid)
  then have "DEBUG_MESSAGES (snd (mem_handle e s)) =
      filter (\<lambda>msg. msg_conversation_id msg \<noteq> cid) (DEBUG_MESSAGES s)"
    by (simp add: delete_conversation_mem_def remove_matching_filter Let_def
        split: option.splits)
  then show ?thesis by blast
next
  case (PostModelsSelect model)
  then have "DEBUG_MESSAGES (snd (mem_handle e s)) = filter (\<lambda>_. True) (DEBUG_MESSAGES s)"
    by (simp add: post_models_select_def split: option.splits)
  then show ?thesis by blast
next
  case (PostConversations uuid now title)
  then have "DEBUG_MESSAGES (snd (mem_handle e s)) = filter (\<lambda>_. True) (DEBUG_MESSAGES s)"
    by (simp add: post_conversations_mem_def Let_def)
  then show ?thesis by blast
next
  case (PostChatDebug uuid now content conversationId)
  then have "DEBUG_MESSAGES (snd (mem_handle e s)) =
      DEBUG_MESSAGES s @ [debug_message uuid now content conversationId]"
    by (simp add: post_chat_debug_mem_def)
  then show ?thesis by blast
qed (force intro: exI [of _ "\<lambda>_. True"])+

text \<open>In every state the in-memory server reaches, \<open>MESSAGES\<close> holds chat messages only
  and \<open>DEBUG_MESSAGES\<close> holds entries without a message type.\<close>

lemma mem_run_message_types:
  "(\<forall>msg \<in> set (MESSAGES (mem_run es mem_initial)). msg_message_type msg = Some ''chat'') \<and>
   (\<forall>msg \<in> set (DEBUG_MESSAGES (mem_run es mem_initial)). msg_message_type msg = None)"
proof (induction es rule: rev_induct)
  case Nil
  show ?case by (simp add: mem_initial_def)
next
  case (snoc e es)
  let ?s = "mem_run es mem_initial"
  have run: "mem_run (es @ [e]) mem_initial = snd (mem_handle e ?s)"
    by (simp add: mem_run_append)
  have "\<forall>msg \<in> set (MESSAGES (snd (mem_handle e ?s))). msg_message_type msg = Some ''chat''"
    using mem_handle_MESSAGES [of e ?s] snoc.IH
    by (auto simp: user_message_def assistant_message_def)
  moreover
  have "\<forall>msg \<in> set (DEBUG_MESSAGES (snd (mem_handle e ?s))). msg_message_type msg = None"
    using mem_handle_DEBUG_MESSAGES [of e ?s] snoc.IH
    by (auto simp: debug_message_def)
  ultimately show ?case unfolding run by simp
qed

text \<open>Under a clock that never runs backwards, \<open>MESSAGES\<close> is in ascending order of
  \<open>created_at\<close>.\<close>

lemma mem_run_creation_order:
  "sorted (concat (map event_times es)) \<Longrightarrow>
     sorted (map msg_created_at (MESSAGES (mem_run es mem_initial))) \<and>
     set (map msg_created_at (MESSAGES (mem_run es mem_initial)))
       \<subseteq> set (concat (map event_times es))"
proof (induction es rule: rev_induct)
  case Nil
  show ?case by (simp add: mem_initial_def)
next
  case (snoc e es)
  let ?s = "mem_run es mem_initial"
  let ?old = "map msg_created_at (MESSAGES ?s)"
  have run: "mem_run (es @ [e]) mem_initial = snd (mem_handle e ?s)"
    by (simp add: mem_run_append)
  have clock: "sorted (concat (map event_times es))" "sorted (event_times e)"
    "\<forall>t \<in> set (concat (map event_times es)). \<forall>t' \<in> set (event_times e). t \<le> t'"
    using snoc.prems by (auto simp: sorted_append)
  have old: "sorted ?old" "set ?old \<subseteq> set (concat (map event_times es))"
    using snoc.IH [OF clock(1)] by simp_all
  consider (filtered) P where "MESSAGES (snd (mem_handle e ?s)) = filter P (MESSAGES ?s)"
    | (appended) create env b reply where "e = PostChat create env b"
        "MESSAGES (snd (mem_handle e ?s)) =
           MESSAGES ?s @ [user_message env b, assistant_message env b reply]"
    using mem_handle_MESSAGES [of e ?s] by blast
  then show ?case
  proof cases
    case filtered
    have "sorted (map msg_created_at (filter P (MESSAGES ?s)))"
      using old(1) by (simp add: sorted_map sorted_wrt_filter)
    moreover have "set (map msg_created_at (filter P (MESSAGES ?s))) \<subseteq> set ?old"
      by auto
    ultimately show ?thesis unfolding run filtered using old(2) by auto
  next
    case appended
    have times: "event_times e = [env_user_created_at env, env_ai_created_at env]"
      using appended(1) by simp
    have "env_user_created_at env \<le> env_ai_created_at env"
      using clock(2) times by simp
    moreover have "\<forall>t \<in> set ?old. t \<le> env_user_created_at env"
      using clock(3) old(2) times by auto
    ultimately have "sorted (?old @ [env_user_created_at env, env_ai_created_at env])"
      using old(1) by (auto simp: sorted_append)
    then show ?thesis
      unfolding run appended(2) using old(2) times
      by (auto simp: user_message_def assistant_message_def)
  qed
qed

lemma sorted_listMessages_spec:
  "sorted (map msg_created_at stored) \<Longrightarrow>
     sorted (map msg_created_at (listMessages_spec cid ty stored))"
  by (simp add: listMessages_spec_def sorted_map sorted_wrt_filter)

lemma get_messages_mem_run:
  "get_messages_mem cid (mem_run es mem_initial) =
     Json 200 (Messages (listMessages_spec cid ''chat''
       (MESSAGES (mem_run es mem_initial) @ DEBUG_MESSAGES (mem_run es mem_initial))))"
proof -
  let ?s = "mem_run es mem_initial"
  have chat: "\<forall>msg \<in> set (MESSAGES ?s). msg_message_type msg = Some ''chat''"
    and debug: "\<forall>msg \<in> set (DEBUG_MESSAGES ?s). msg_message_type msg = None"
    using mem_run_message_types [of es] by simp_all
  have "filter (\<lambda>msg. msg_conversation_id msg = cid \<and> msg_message_type msg = Some ''chat'')
          (MESSAGES ?s) = filter (\<lambda>msg. msg_conversation_id msg = cid) (MESSAGES ?s)"
    using chat by (auto intro: filter_cong)
  moreover
  have "filter (\<lambda>msg. msg_conversation_id msg = cid \<and> msg_message_type msg = Some ''chat'')
          (DEBUG_MESSAGES ?s) = []"
    using debug by (auto simp: filter_empty_conv)
  ultimately show ?thesis
    by (simp add: get_messages_mem_def listMessages_spec_def)
qed

lemma example_run:
  "mem_run example_events mem_initial =
     \<lparr>currentModel = ModelName ''gpt-4o'',
      CONVERSATIONS = [\<lparr>conv_id = ''a'', conv_title = None, conv_created_at = 10\<rparr>],
      MESSAGES = [user_message example_env example_body,
                  assistant_message example_env example_body ''9''],
      DEBUG_MESSAGES = [debug_message ''d1'' 12 ''sent'' ''a'']\<rparr>"
  by (simp add: example_events_def mem_initial_def post_conversations_mem_def
      post_chat_debug_mem_def post_chat_mem_def example_create_def Let_def)

text \<open>
  C6. For every conversation id, the message listing returns exactly the stored messages
  whose conversation id is that id and whose message type is \<open>chat\<close>, in the order
  they are stored, which is the order they were appended in; it is the ascending order
  of \<open>created_at\<close> when the store is (file variant), or when the clock never ran
  backwards while the server handled its requests (in-memory variant, in every state
  it reaches). No debug message is ever listed: the entries the debug endpoint stores have
  no message type, and in the in-memory variant no element of \<open>DEBUG_MESSAGES\<close> is in
  the listing.
\<close>

theorem list_messages_exact:
  "(messages_file fs = Some msgs \<longrightarrow>
      get_messages_file cid fs = Json 200 (Messages (listMessages_spec cid ''chat'' msgs)) \<and>
      (sorted (map msg_created_at msgs) \<longrightarrow>
         sorted (map msg_created_at (listMessages_spec cid ''chat'' msgs))) \<and>
      debug_message uuid now content conversationId
        \<notin> set (listMessages_spec cid ''chat'' msgs)) \<and>
   get_messages_mem cid (mem_run es mem_initial) =
     Json 200 (Messages (listMessages_spec cid ''chat''
       (MESSAGES (mem_run es mem_initial) @ DEBUG_MESSAGES (mem_run es mem_initial)))) \<and>
   (sorted (concat (map event_times es)) \<longrightarrow>
      sorted (map msg_created_at (listMessages_spec cid ''chat''
        (MESSAGES (mem_run es mem_initial) @ DEBUG_MESSAGES (mem_run es mem_initial))))) \<and>
   (\<forall>msg \<in> set (DEBUG_MESSAGES (mem_run es mem_initial)).
      msg \<notin> set (listMessages_spec cid ''chat''
        (MESSAGES (mem_run es mem_initial) @ DEBUG_MESSAGES (mem_run es mem_initial))))"
proof -
  let ?s = "mem_run es mem_initial"
  have stored_file: "messages_file fs = Some msgs \<longrightarrow>
      get_messages_file cid fs = Json 200 (Messages (listMessages_spec cid ''chat'' msgs)) \<and>
      (sorted (map msg_created_at msgs) \<longrightarrow>
         sorted (map msg_created_at (listMessages_spec cid ''chat'' msgs))) \<and>
      debug_message uuid now content conversationId
        \<notin> set (listMessages_spec cid ''chat'' msgs)"
    by (simp add: get_messages_file_def sorted_listMessages_spec)
       (simp add: listMessages_spec_def debug_message_def)
  have debug: "\<forall>msg \<in> set (DEBUG_MESSAGES ?s). msg_message_type msg = None"
    using mem_run_message_types [of es] by simp
  then have split: "listMessages_spec cid ''chat'' (MESSAGES ?s @ DEBUG_MESSAGES ?s) =
      listMessages_spec cid ''chat'' (MESSAGES ?s)"
    by (auto simp: listMessages_spec_def filter_empty_conv)
  have order: "sorted (concat (map event_times es)) \<longrightarrow>
      sorted (map msg_created_at (listMessages_spec cid ''chat''
        (MESSAGES ?s @ DEBUG_MESSAGES ?s)))"
    unfolding split using mem_run_creation_order [of es]
    by (simp add: sorted_listMessages_spec)
  have never: "\<forall>msg \<in> set (DEBUG_MESSAGES ?s).
      msg \<notin> set (listMessages_spec cid ''chat'' (MESSAGES ?s @ DEBUG_MESSAGES ?s))"
    using debug by (auto simp: listMessages_spec_def)
  show ?thesis
    using stored_file get_messages_mem_run [of cid es] order never by blast
qed

text \<open>The example file store, and the in-memory server after the example requests.\<close>

theorem list_messages_exact_witness:
  "get_messages_file ''a'' example_file_server =
     Json 200 (Messages (listMessages_spec ''a'' ''chat'' example_messages)) \<and>
   map msg_id (listMessages_spec ''a'' ''chat'' example_messages) = [''m1'', ''m3''] \<and>
   sorted (map msg_created_at (listMessages_spec ''a'' ''chat'' example_messages)) \<and>
   get_messages_mem ''a'' (mem_run example_events mem_initial) =
     Json 200 (Messages [user_message example_env example_body,
                         assistant_message example_env example_body ''9'']) \<and>
   debug_message ''d1'' 12 ''sent'' ''a'' \<notin>
     set [user_message example_env example_body,
          assistant_message example_env example_body ''9'']"
proof -
  have readable: "messages_file example_file_server = Some example_messages"
    by (simp add: example_file_server_def)
  have stored: "sorted (map msg_created_at example_messages)"
    by (simp add: example_messages_def)
  have clock: "sorted (concat (map event_times example_events))"
    by (simp add: example_events_def example_env_def)
  have listed: "listMessages_spec ''a'' ''chat''
      (MESSAGES (mem_run example_events mem_initial) @
       DEBUG_MESSAGES (mem_run example_events mem_initial)) =
      [user_message example_env example_body, assistant_message example_env example_body ''9'']"
    by (simp add: example_run listMessages_spec_def user_message_def assistant_message_def
        debug_message_def example_body_def)
  have ids: "map msg_id (listMessages_spec ''a'' ''chat'' example_messages) = [''m1'', ''m3'']"
    by (simp add: listMessages_spec_def example_messages_def)
  note exact =
    list_messages_exact [where fs = example_file_server and msgs = example_messages
      and cid = "''a''" and es = example_events]
  have "get_messages_file ''a'' example_file_server =
      Json 200 (Messages (listMessages_spec ''a'' ''chat'' example_messages))"
    using exact readable by blast
  moreover have "sorted (map msg_created_at (listMessages_spec ''a'' ''chat'' example_messages))"
    using exact readable stored by blast
  moreover have "get_messages_mem ''a'' (mem_run example_events mem_initial) =
     Json 200 (Messages [user_message example_env example_body,
                         assistant_message example_env example_body ''9''])"
    using exact listed by simp
  moreover have "debug_message ''d1'' 12 ''sent'' ''a'' \<notin>
     set [user_message example_env example_body,
          assistant_message example_env example_body ''9'']"
    using exact clock listed by (simp add: example_run)
  ultimately show ?thesis using ids by blast
qed

end
